theory Spec2Isabelle
  imports Complex_Main "HOL-Library.Word" "HOL-Library.Sublist" "HOL-Library.AList"
    "HOL-Library.Code_Target_Numeral"
begin

section \<open>JavaScript strings and JSON values\<close>

text \<open>
  A JavaScript string is a sequence of UTF-16 code units; \<open>length\<close>, \<open>substring\<close>,
  \<open>trim\<close> and the regular expressions of the two route handlers all count and compare code
  units. \<open>js\<close> embeds an ASCII literal.
\<close>

type_synonym cu = "16 word"
type_synonym jstring = "cu list"

definition js :: "string \<Rightarrow> jstring" where
  "js s = map (\<lambda>c. of_nat (of_char c)) s"

text \<open>
  A JavaScript number is a double: a finite value, given here by the rational it
  denotes, the negative zero, positive or negative infinity (\<open>Infinity True\<close> is the
  negative one), or NaN.
\<close>

datatype number = Finite rat | NegZero | Infinity bool | NaN

text \<open>
  The values \<open>JSON.parse\<close> produces. An object is the list of its own properties in the
  order in which JavaScript enumerates them; a property that is not there (\<open>undefined\<close>)
  is \<open>None\<close> of \<open>json option\<close>.
\<close>

datatype json =
    JNull
  | JBool bool
  | JNum number
  | JStr jstring
  | JArr "json list"
  | JObj "(jstring \<times> json) list"

text \<open>JavaScript truthiness, the test behind \<open>!x\<close> and \<open>if (x)\<close>.\<close>

fun truthy :: "json option \<Rightarrow> bool" where
  "truthy None = False"
| "truthy (Some JNull) = False"
| "truthy (Some (JBool b)) = b"
| "truthy (Some (JNum x)) = (x \<noteq> Finite 0 \<and> x \<noteq> NegZero \<and> x \<noteq> NaN)"
| "truthy (Some (JStr s)) = (s \<noteq> [])"
| "truthy (Some (JArr xs)) = True"
| "truthy (Some (JObj kvs)) = True"

text \<open>
  Reading one of the named data properties the handlers use (\<open>prompt\<close>, \<open>todos\<close>,
  \<open>timeframe\<close>, \<open>title\<close>, \<open>description\<close>, \<open>priority\<close>, \<open>due_date\<close>, ...) from a value
  that is not \<open>null\<close>: only an object can own one; on a string, number, boolean or array
  the read gives \<open>undefined\<close>. Reading from \<open>null\<close> throws and is a separate branch
  wherever it can happen.
\<close>

fun get_prop :: "json \<Rightarrow> jstring \<Rightarrow> json option" where
  "get_prop (JObj kvs) k = map_of kvs k"
| "get_prop _ k = None"

text \<open>
  The value that the text of \<open>JSON.stringify\<close> denotes, which is what the reader of a
  response of \<open>NextResponse.json\<close> gets: a number that is not finite is written as
  \<open>null\<close>, the negative zero as \<open>0\<close>, everything else as it is.
\<close>

primrec wire :: "json \<Rightarrow> json" where
  "wire JNull = JNull"
| "wire (JBool b) = JBool b"
| "wire (JNum x) =
     (case x of Finite r \<Rightarrow> JNum (Finite r) | NegZero \<Rightarrow> JNum (Finite 0) | _ \<Rightarrow> JNull)"
| "wire (JStr s) = JStr s"
| "wire (JArr xs) = JArr (map wire xs)"
| "wire (JObj kvs) = JObj (map (map_prod id wire) kvs)"

section \<open>Errors, responses and the environment\<close>

text \<open>
  A thrown value: an \<open>Error\<close> object with its \<open>name\<close>, its \<open>message\<close> and, for the errors
  of the completion service's client library, the HTTP status of the failed call.
\<close>

record err =
  err_name :: jstring
  err_message :: jstring
  err_status :: "nat option"

record response =
  resp_status :: nat
  resp_body :: json

text \<open>The places where the handlers can raise a \<open>TypeError\<close>.\<close>

datatype fault =
    ReadOfNull jstring
  | WriteOnPrimitive json jstring
  | NotAFunction jstring

text \<open>
  The parts of the JavaScript engine that the language standard leaves to the implementation,
  or that are not reproduced here, are parameters:
  \<^item> \<open>date_impl\<close>: the time value (milliseconds since the epoch, \<open>None\<close> for an invalid
    date) of \<open>new Date(v)\<close> for every \<open>v\<close> that is not a string of the date-only form
    \<open>YYYY-MM-DD\<close>;
  \<^item> \<open>to_number\<close>: the conversion of a string, array or object to a number;
  \<^item> \<open>to_double\<close>: the double nearest to a decimal value, for a value below the bound at
    which the rounding overflows;
  \<^item> \<open>syntax_msg\<close> and \<open>fault_msg\<close>: the message texts of the engine's \<open>SyntaxError\<close> and
    \<open>TypeError\<close>;
  \<^item> \<open>stringify\<close>: \<open>JSON.stringify\<close>; \<open>to_lower\<close>: \<open>String.prototype.toLowerCase\<close>.
\<close>

record engine =
  date_impl :: "json \<Rightarrow> int option"
  to_number :: "json \<Rightarrow> number"
  to_double :: "rat \<Rightarrow> rat"
  syntax_msg :: "jstring \<Rightarrow> jstring"
  fault_msg :: "fault \<Rightarrow> jstring"
  stringify :: "json \<Rightarrow> jstring"
  to_lower :: "jstring \<Rightarrow> jstring"

definition syntax_error :: "engine \<Rightarrow> jstring \<Rightarrow> err" where
  "syntax_error eng text =
     \<lparr>err_name = js ''SyntaxError'', err_message = syntax_msg eng text, err_status = None\<rparr>"

definition type_error :: "engine \<Rightarrow> fault \<Rightarrow> err" where
  "type_error eng f =
     \<lparr>err_name = js ''TypeError'', err_message = fault_msg eng f, err_status = None\<rparr>"

text \<open>
  The reading of the clock by \<open>new Date()\<close>: the calendar date in UTC, which
  \<open>toISOString\<close> prints, and the hour and minute in local time, which \<open>toTimeString\<close>
  prints.
\<close>

record clock =
  utc_year :: nat
  utc_month :: nat
  utc_day :: nat
  local_hour :: nat
  local_minute :: nat

text \<open>
  What \<open>sendMessage\<close> hands to the Text Completion Service: the system instruction, given
  by the values interpolated into its fixed text, and the user message.
\<close>

datatype instruction =
    ExtractInstruction jstring jstring
  | AnalyzeInstruction jstring jstring jstring

record outgoing =
  out_instruction :: instruction
  out_message :: jstring

type_synonym upstream = "outgoing \<Rightarrow> err + jstring"

section \<open>String operations\<close>

text \<open>The characters matched by \<open>\s\<close> and removed by \<open>trim\<close>: white space and line terminators.\<close>

definition js_space :: "cu \<Rightarrow> bool" where
  "js_space c \<longleftrightarrow>
     c \<in> {0x09, 0x0A, 0x0B, 0x0C, 0x0D, 0x20, 0xA0, 0x1680, 0x2028, 0x2029, 0x202F, 0x205F,
           0x3000, 0xFEFF}
     \<or> (0x2000 \<le> c \<and> c \<le> 0x200A)"

definition trim :: "jstring \<Rightarrow> jstring" where
  "trim s = rev (dropWhile js_space (rev (dropWhile js_space s)))"

text \<open>\<open>s.replace(/\s+/g, ' ')\<close>: every maximal run of white space becomes one space.\<close>

function collapse_spaces :: "jstring \<Rightarrow> jstring" where
  "collapse_spaces [] = []"
| "collapse_spaces (c # cs) =
     (if js_space c then 0x20 # collapse_spaces (dropWhile js_space cs)
      else c # collapse_spaces cs)"
  by pat_completeness auto
termination
  by (relation "measure length") (auto simp: length_dropWhile_le less_Suc_eq_le)

text \<open>\<open>s.includes(p)\<close>.\<close>

definition str_includes :: "jstring \<Rightarrow> jstring \<Rightarrow> bool" where
  "str_includes s p = sublist p s"

section \<open>Dates\<close>

definition digit :: "nat \<Rightarrow> cu" where
  "digit n = of_nat (48 + n mod 10)"

definition pad2 :: "nat \<Rightarrow> jstring" where
  "pad2 n = [digit (n div 10), digit n]"

definition pad4 :: "nat \<Rightarrow> jstring" where
  "pad4 n = [digit (n div 1000), digit (n div 100), digit (n div 10), digit n]"

definition pad6 :: "nat \<Rightarrow> jstring" where
  "pad6 n = [digit (n div 100000), digit (n div 10000), digit (n div 1000), digit (n div 100),
             digit (n div 10), digit n]"

text \<open>
  \<open>now.toISOString().split('T')[0]\<close>: the UTC date as \<open>YYYY-MM-DD\<close>, with the expanded
  six-digit year of \<open>toISOString\<close> beyond the year 9999.
\<close>

definition currentDate :: "clock \<Rightarrow> jstring" where
  "currentDate clk =
     (if utc_year clk \<le> 9999 then pad4 (utc_year clk) else js ''+'' @ pad6 (utc_year clk))
     @ js ''-'' @ pad2 (utc_month clk) @ js ''-'' @ pad2 (utc_day clk)"

text \<open>\<open>now.toTimeString().split(' ')[0].substring(0, 5)\<close>: the local time as \<open>HH:MM\<close>.\<close>

definition currentTime :: "clock \<Rightarrow> jstring" where
  "currentTime clk = pad2 (local_hour clk) @ js '':'' @ pad2 (local_minute clk)"

definition leap_year :: "int \<Rightarrow> bool" where
  "leap_year y \<longleftrightarrow> (y mod 4 = 0 \<and> y mod 100 \<noteq> 0) \<or> y mod 400 = 0"

definition days_in_month :: "int \<Rightarrow> nat \<Rightarrow> nat" where
  "days_in_month y m =
     (if m = 2 then (if leap_year y then 29 else 28)
      else if m = 4 \<or> m = 6 \<or> m = 9 \<or> m = 11 then 30 else 31)"

text \<open>The day number of the first of January of year \<open>y\<close>, counted from 1970-01-01.\<close>

definition day_from_year :: "int \<Rightarrow> int" where
  "day_from_year y =
     365 * (y - 1970) + (y - 1969) div 4 - (y - 1901) div 100 + (y - 1601) div 400"

definition make_day :: "int \<Rightarrow> nat \<Rightarrow> nat \<Rightarrow> int" where
  "make_day y m d =
     day_from_year y + int (sum_list (map (days_in_month y) [1..<m])) + int d - 1"

definition ms_per_day :: int where
  "ms_per_day = 86400000"

definition digit_val :: "cu \<Rightarrow> nat option" where
  "digit_val c = (if 0x30 \<le> c \<and> c \<le> 0x39 then Some (unat c - 48) else None)"

text \<open>
  The date-only form \<open>YYYY-MM-DD\<close> of the date-time string format, read as midnight UTC
  of a date that exists in the calendar. Every other text is left to the engine.
\<close>

fun parse_iso_date :: "jstring \<Rightarrow> int option" where
  "parse_iso_date [y1, y2, y3, y4, h1, m1, m2, h2, d1, d2] =
     (case (digit_val y1, digit_val y2, digit_val y3, digit_val y4,
            digit_val m1, digit_val m2, digit_val d1, digit_val d2) of
        (Some a, Some b, Some c, Some d, Some e, Some f, Some g, Some h) \<Rightarrow>
          (let y = int (1000 * a + 100 * b + 10 * c + d); m = 10 * e + f; dd = 10 * g + h
           in if h1 = 0x2D \<and> h2 = 0x2D \<and> 1 \<le> m \<and> m \<le> 12 \<and> 1 \<le> dd \<and> dd \<le> days_in_month y m
              then Some (make_day y m dd * ms_per_day) else None)
      | _ \<Rightarrow> None)"
| "parse_iso_date _ = None"

text \<open>The time value of \<open>new Date(v)\<close>; \<open>None\<close> is the invalid date, whose time value is NaN.\<close>

definition date_value :: "engine \<Rightarrow> json \<Rightarrow> int option" where
  "date_value eng v =
     (case v of
        JStr s \<Rightarrow> (case parse_iso_date s of Some t \<Rightarrow> Some t | None \<Rightarrow> date_impl eng v)
      | _ \<Rightarrow> date_impl eng v)"

text \<open>\<open>a < b\<close> on two dates: a comparison of the time values, false when either is NaN.\<close>

definition date_less :: "int option \<Rightarrow> int option \<Rightarrow> bool" where
  "date_less a b = (case (a, b) of (Some x, Some y) \<Rightarrow> x < y | _ \<Rightarrow> False)"

section \<open>\<open>JSON.parse\<close>\<close>

text \<open>
  \<open>JSON.parse\<close> accepts exactly the JSON grammar. It is modelled in two passes, each a
  machine that reads its input once from left to right: a scanner from code units to tokens
  and a pushdown recogniser from tokens to a value.
\<close>

datatype token =
    TLBrace | TRBrace | TLBrack | TRBrack | TColon | TComma
  | TStr jstring | TNum bool rat | TTrue | TFalse | TNull

text \<open>
  The phases of a number: after the minus sign, after a leading zero, inside the integer
  digits, after the decimal point, inside the fraction, after the exponent letter, after
  the exponent sign, inside the exponent. A number may end in \<open>NZero\<close>, \<open>NInt\<close>, \<open>NFrac\<close>
  and \<open>NExp\<close>.
\<close>

datatype numphase = NMinus | NZero | NInt | NDot | NFrac | NE | NESign | NExp

record numacc =
  num_neg :: bool
  num_mant :: nat
  num_scale :: nat
  num_eneg :: bool
  num_exp :: nat

definition num_start :: numacc where
  "num_start = \<lparr>num_neg = False, num_mant = 0, num_scale = 0, num_eneg = False, num_exp = 0\<rparr>"

definition num_magnitude :: "numacc \<Rightarrow> rat" where
  "num_magnitude a =
     of_nat (num_mant a)
       * (if num_eneg a then 1 / 10 ^ num_exp a else 10 ^ num_exp a) / 10 ^ num_scale a"

definition accepting :: "numphase \<Rightarrow> bool" where
  "accepting ph \<longleftrightarrow> ph = NZero \<or> ph = NInt \<or> ph = NFrac \<or> ph = NExp"

fun num_step :: "numphase \<Rightarrow> numacc \<Rightarrow> cu \<Rightarrow> (numphase \<times> numacc) option" where
  "num_step NMinus a c =
     (case digit_val c of
        None \<Rightarrow> None
      | Some d \<Rightarrow> if d = 0 then Some (NZero, a) else Some (NInt, a\<lparr>num_mant := d\<rparr>))"
| "num_step NZero a c =
     (if c = 0x2E then Some (NDot, a)
      else if c = 0x65 \<or> c = 0x45 then Some (NE, a) else None)"
| "num_step NInt a c =
     (case digit_val c of
        Some d \<Rightarrow> Some (NInt, a\<lparr>num_mant := 10 * num_mant a + d\<rparr>)
      | None \<Rightarrow>
          if c = 0x2E then Some (NDot, a)
          else if c = 0x65 \<or> c = 0x45 then Some (NE, a) else None)"
| "num_step NDot a c =
     (case digit_val c of
        None \<Rightarrow> None
      | Some d \<Rightarrow>
          Some (NFrac, a\<lparr>num_mant := 10 * num_mant a + d, num_scale := Suc (num_scale a)\<rparr>))"
| "num_step NFrac a c =
     (case digit_val c of
        Some d \<Rightarrow>
          Some (NFrac, a\<lparr>num_mant := 10 * num_mant a + d, num_scale := Suc (num_scale a)\<rparr>)
      | None \<Rightarrow> if c = 0x65 \<or> c = 0x45 then Some (NE, a) else None)"
| "num_step NE a c =
     (case digit_val c of
        Some d \<Rightarrow> Some (NExp, a\<lparr>num_exp := d\<rparr>)
      | None \<Rightarrow>
          if c = 0x2B then Some (NESign, a)
          else if c = 0x2D then Some (NESign, a\<lparr>num_eneg := True\<rparr>) else None)"
| "num_step NESign a c =
     (case digit_val c of None \<Rightarrow> None | Some d \<Rightarrow> Some (NExp, a\<lparr>num_exp := d\<rparr>))"
| "num_step NExp a c =
     (case digit_val c of
        None \<Rightarrow> None
      | Some d \<Rightarrow> Some (NExp, a\<lparr>num_exp := 10 * num_exp a + d\<rparr>))"

text \<open>
  The scanner's states: between tokens; inside a string (with the code units read so far,
  last first); after a backslash; inside the four hexadecimal digits of \<open>\u\<close>; inside one
  of the literals \<open>true\<close>, \<open>false\<close>, \<open>null\<close> (with the code units still to come); inside a
  number.
\<close>

datatype lstate =
    LTop
  | LStr jstring
  | LEsc jstring
  | LUni jstring nat nat
  | LLit token jstring
  | LNum numphase numacc

definition json_space :: "cu \<Rightarrow> bool" where
  "json_space c \<longleftrightarrow> c = 0x20 \<or> c = 0x09 \<or> c = 0x0A \<or> c = 0x0D"

definition hex_val :: "cu \<Rightarrow> nat option" where
  "hex_val c =
     (if 0x30 \<le> c \<and> c \<le> 0x39 then Some (unat c - 48)
      else if 0x41 \<le> c \<and> c \<le> 0x46 then Some (unat c - 55)
      else if 0x61 \<le> c \<and> c \<le> 0x66 then Some (unat c - 87)
      else None)"

text \<open>A code unit met between tokens.\<close>

definition lex_top :: "cu \<Rightarrow> (lstate \<times> token list) option" where
  "lex_top c =
     (if json_space c then Some (LTop, [])
      else if c = 0x7B then Some (LTop, [TLBrace])
      else if c = 0x7D then Some (LTop, [TRBrace])
      else if c = 0x5B then Some (LTop, [TLBrack])
      else if c = 0x5D then Some (LTop, [TRBrack])
      else if c = 0x3A then Some (LTop, [TColon])
      else if c = 0x2C then Some (LTop, [TComma])
      else if c = 0x22 then Some (LStr [], [])
      else if c = 0x2D then Some (LNum NMinus (num_start\<lparr>num_neg := True\<rparr>), [])
      else if c = 0x30 then Some (LNum NZero num_start, [])
      else if 0x31 \<le> c \<and> c \<le> 0x39 then Some (LNum NInt (num_start\<lparr>num_mant := unat c - 48\<rparr>), [])
      else if c = 0x74 then Some (LLit TTrue (js ''rue''), [])
      else if c = 0x66 then Some (LLit TFalse (js ''alse''), [])
      else if c = 0x6E then Some (LLit TNull (js ''ull''), [])
      else None)"

definition unescape :: "cu \<Rightarrow> cu option" where
  "unescape c =
     (if c = 0x22 \<or> c = 0x5C \<or> c = 0x2F then Some c
      else if c = 0x62 then Some 0x08
      else if c = 0x66 then Some 0x0C
      else if c = 0x6E then Some 0x0A
      else if c = 0x72 then Some 0x0D
      else if c = 0x74 then Some 0x09
      else None)"

fun lex_step :: "lstate \<Rightarrow> cu \<Rightarrow> (lstate \<times> token list) option" where
  "lex_step LTop c = lex_top c"
| "lex_step (LStr acc) c =
     (if c = 0x22 then Some (LTop, [TStr (rev acc)])
      else if c = 0x5C then Some (LEsc acc, [])
      else if c < 0x20 then None
      else Some (LStr (c # acc), []))"
| "lex_step (LEsc acc) c =
     (if c = 0x75 then Some (LUni acc 0 0, [])
      else (case unescape c of None \<Rightarrow> None | Some u \<Rightarrow> Some (LStr (u # acc), [])))"
| "lex_step (LUni acc k v) c =
     (case hex_val c of
        None \<Rightarrow> None
      | Some h \<Rightarrow>
          if k = 3 then Some (LStr (of_nat (16 * v + h) # acc), [])
          else Some (LUni acc (Suc k) (16 * v + h), []))"
| "lex_step (LLit tok rest) c =
     (case rest of
        [] \<Rightarrow> None
      | r # rs \<Rightarrow>
          if c \<noteq> r then None
          else if rs = [] then Some (LTop, [tok]) else Some (LLit tok rs, []))"
| "lex_step (LNum ph a) c =
     (case num_step ph a c of
        Some (ph', a') \<Rightarrow> Some (LNum ph' a', [])
      | None \<Rightarrow>
          if accepting ph
          then (case lex_top c of
                  None \<Rightarrow> None
                | Some (st, ts) \<Rightarrow> Some (st, TNum (num_neg a) (num_magnitude a) # ts))
          else None)"

definition lex_finish :: "lstate \<Rightarrow> token list option" where
  "lex_finish st =
     (case st of
        LTop \<Rightarrow> Some []
      | LNum ph a \<Rightarrow> if accepting ph then Some [TNum (num_neg a) (num_magnitude a)] else None
      | _ \<Rightarrow> None)"

fun lex_run :: "lstate \<Rightarrow> jstring \<Rightarrow> token list option" where
  "lex_run st [] = lex_finish st"
| "lex_run st (c # cs) =
     (case lex_step st c of
        None \<Rightarrow> None
      | Some (st', ts) \<Rightarrow> (case lex_run st' cs of None \<Rightarrow> None | Some us \<Rightarrow> Some (ts @ us)))"

text \<open>
  In every state the scanner reaches, what is left of a literal consists of lower-case
  letters.
\<close>

definition lstate_ok :: "lstate \<Rightarrow> bool" where
  "lstate_ok st = (case st of LLit tok rest \<Rightarrow> list_all (\<lambda>c. 0x61 \<le> c \<and> c \<le> 0x7A) rest | _ \<Rightarrow> True)"

text \<open>
  The recogniser keeps the open containers on a stack: an array with its elements so far
  (last first), an object with its members so far and the key whose value is being read.

  The number a decimal text denotes, from its sign and its magnitude: from
  \<open>2^1024 - 2^970\<close> on, half way between the largest double and \<open>2^1024\<close>, the rounding
  gives an infinity; below, the nearest double, with the sign; a negative text that rounds
  to zero is the negative zero.
\<close>

definition overflow_bound :: rat where
  "overflow_bound = 2 ^ 1024 - 2 ^ 970"

definition number_of :: "engine \<Rightarrow> bool \<Rightarrow> rat \<Rightarrow> number" where
  "number_of eng negative x =
     (if overflow_bound \<le> x then Infinity negative
      else if \<not> negative then Finite (to_double eng x)
      else if to_double eng x = 0 then NegZero
      else Finite (- to_double eng x))"

text \<open>
  A key is an array index when it is the decimal text, without a leading zero, of a number
  below \<open>2^32 - 1\<close>. JavaScript enumerates the properties of an object with the array indices
  first, in ascending order, and the other keys after them in the order of their creation.
  \<open>obj_put\<close> creates a property the way \<open>JSON.parse\<close> does for a member: a repeated key
  overwrites the earlier value and keeps its place.
\<close>

definition index_key :: "jstring \<Rightarrow> nat option" where
  "index_key k =
     (let n = foldl (\<lambda>n c. 10 * n + (unat c - 48)) 0 k
      in if k \<noteq> [] \<and> list_all (\<lambda>c. 0x30 \<le> c \<and> c \<le> 0x39) k \<and> (k = [0x30] \<or> hd k \<noteq> 0x30)
            \<and> n < 2 ^ 32 - 1
         then Some n else None)"

definition index_below :: "nat \<Rightarrow> jstring \<times> json \<Rightarrow> bool" where
  "index_below i kv = (case index_key (fst kv) of None \<Rightarrow> False | Some j \<Rightarrow> j < i)"

definition obj_put :: "jstring \<Rightarrow> json \<Rightarrow> (jstring \<times> json) list \<Rightarrow> (jstring \<times> json) list" where
  "obj_put k v ms =
     (if k \<in> set (map fst ms) then AList.update k v ms
      else (case index_key k of
              None \<Rightarrow> ms @ [(k, v)]
            | Some i \<Rightarrow> takeWhile (index_below i) ms @ (k, v) # dropWhile (index_below i) ms))"

datatype ctx = CArr "json list" | CObj "(jstring \<times> json) list" jstring

datatype pstate =
    PVal "ctx list"
  | PArr0 "ctx list"
  | PObj0 "ctx list"
  | PKey "(jstring \<times> json) list" "ctx list"
  | PColon "(jstring \<times> json) list" jstring "ctx list"
  | PArrNext "json list" "ctx list"
  | PObjNext "(jstring \<times> json) list" "ctx list"
  | PDone json

fun deliver :: "json \<Rightarrow> ctx list \<Rightarrow> pstate" where
  "deliver v [] = PDone v"
| "deliver v (CArr es # st) = PArrNext (v # es) st"
| "deliver v (CObj ms k # st) = PObjNext (obj_put k v ms) st"

fun value_start :: "engine \<Rightarrow> ctx list \<Rightarrow> token \<Rightarrow> pstate option" where
  "value_start eng st (TStr s) = Some (deliver (JStr s) st)"
| "value_start eng st (TNum negative x) = Some (deliver (JNum (number_of eng negative x)) st)"
| "value_start eng st TTrue = Some (deliver (JBool True) st)"
| "value_start eng st TFalse = Some (deliver (JBool False) st)"
| "value_start eng st TNull = Some (deliver JNull st)"
| "value_start eng st TLBrack = Some (PArr0 st)"
| "value_start eng st TLBrace = Some (PObj0 st)"
| "value_start eng st _ = None"

fun parse_step :: "engine \<Rightarrow> pstate \<Rightarrow> token \<Rightarrow> pstate option" where
  "parse_step eng (PVal st) tok = value_start eng st tok"
| "parse_step eng (PArr0 st) tok =
     (if tok = TRBrack then Some (deliver (JArr []) st) else value_start eng (CArr [] # st) tok)"
| "parse_step eng (PObj0 st) tok =
     (case tok of
        TRBrace \<Rightarrow> Some (deliver (JObj []) st)
      | TStr k \<Rightarrow> Some (PColon [] k st)
      | _ \<Rightarrow> None)"
| "parse_step eng (PKey ms st) tok = (case tok of TStr k \<Rightarrow> Some (PColon ms k st) | _ \<Rightarrow> None)"
| "parse_step eng (PColon ms k st) tok =
     (if tok = TColon then Some (PVal (CObj ms k # st)) else None)"
| "parse_step eng (PArrNext es st) tok =
     (case tok of
        TComma \<Rightarrow> Some (PVal (CArr es # st))
      | TRBrack \<Rightarrow> Some (deliver (JArr (rev es)) st)
      | _ \<Rightarrow> None)"
| "parse_step eng (PObjNext ms st) tok =
     (case tok of
        TComma \<Rightarrow> Some (PKey ms st)
      | TRBrace \<Rightarrow> Some (deliver (JObj ms) st)
      | _ \<Rightarrow> None)"
| "parse_step eng (PDone v) tok = None"

fun parse_run :: "engine \<Rightarrow> pstate \<Rightarrow> token list \<Rightarrow> pstate option" where
  "parse_run eng ps [] = Some ps"
| "parse_run eng ps (t # ts) =
     (case parse_step eng ps t of None \<Rightarrow> None | Some ps' \<Rightarrow> parse_run eng ps' ts)"

text \<open>\<open>JSON.parse(text)\<close>; \<open>None\<close> stands for the \<open>SyntaxError\<close> it throws.\<close>

definition JSON_parse :: "engine \<Rightarrow> jstring \<Rightarrow> json option" where
  "JSON_parse eng text =
     (case lex_run LTop text of
        None \<Rightarrow> None
      | Some ts \<Rightarrow> (case parse_run eng (PVal []) ts of Some (PDone v) \<Rightarrow> Some v | _ \<Rightarrow> None))"

section \<open>Parsing the completion service's reply\<close>

definition fence_open :: jstring where
  "fence_open = js ''```json'' @ [0x0A]"

definition fence_close :: jstring where
  "fence_close = 0x0A # js ''```''"

text \<open>
  \<open>responseText.replace(/```json\n|\n```/g, "")\<close>: reading from the left, every
  occurrence of the opening marker (three backquotes, \<open>json\<close>, a line feed) or of the
  closing marker (a line feed, three backquotes) is removed.
\<close>

function strip_fence :: "jstring \<Rightarrow> jstring" where
  "strip_fence [] = []"
| "strip_fence (c # cs) =
     (if prefix fence_open (c # cs) then strip_fence (drop (length fence_open) (c # cs))
      else if prefix fence_close (c # cs) then strip_fence (drop (length fence_close) (c # cs))
      else c # strip_fence cs)"
  by pat_completeness auto
termination
  by (relation "measure length") (auto simp: fence_open_def fence_close_def js_def)

definition cleanJson :: "jstring \<Rightarrow> jstring" where
  "cleanJson responseText = trim (strip_fence responseText)"

text \<open>
  The \<open>try\<close>/\<open>catch\<close> around \<open>JSON.parse\<close>: the text as it is first, the cleaned text
  when that throws; the \<open>SyntaxError\<close> of the second attempt is not caught here.
\<close>

definition parse_response :: "engine \<Rightarrow> jstring \<Rightarrow> err + json" where
  "parse_response eng responseText =
     (case JSON_parse eng responseText of
        Some v \<Rightarrow> Inr v
      | None \<Rightarrow>
          (case JSON_parse eng (cleanJson responseText) of
             Some v \<Rightarrow> Inr v
           | None \<Rightarrow> Inl (syntax_error eng (cleanJson responseText))))"

section \<open>Post-processing of the extraction\<close>

text \<open>The number a value converts to in a comparison.\<close>

definition js_number :: "engine \<Rightarrow> json option \<Rightarrow> number" where
  "js_number eng v =
     (case v of
        None \<Rightarrow> NaN
      | Some JNull \<Rightarrow> Finite 0
      | Some (JBool b) \<Rightarrow> Finite (if b then 1 else 0)
      | Some (JNum x) \<Rightarrow> x
      | Some w \<Rightarrow> to_number eng w)"

text \<open>
  \<open>v.length > n\<close> for a value \<open>v\<close> that is not \<open>null\<close>: a string has its number of code
  units, an array its number of elements, an object a \<open>length\<close> only as a property of its
  own, a number or boolean none. A comparison with NaN is false.
\<close>

definition length_exceeds :: "engine \<Rightarrow> json \<Rightarrow> nat \<Rightarrow> bool" where
  "length_exceeds eng v n =
     (case v of
        JStr s \<Rightarrow> n < length s
      | JArr xs \<Rightarrow> n < length xs
      | JObj kvs \<Rightarrow>
          (case js_number eng (map_of kvs (js ''length'')) of
             Finite x \<Rightarrow> of_nat n < x
           | NegZero \<Rightarrow> False
           | Infinity negative \<Rightarrow> \<not> negative
           | NaN \<Rightarrow> False)
      | _ \<Rightarrow> False)"

text \<open>
  The title: taken from the prompt when the reply has none, shortened when it is longer
  than 50. \<open>substring\<close> exists on strings only; on any other value the call throws, after
  the description has been written. None of the names the handler assigns to is an array
  index, so an assignment replaces the value in place or adds the property at the end.
\<close>

definition adjust_title ::
  "engine \<Rightarrow> jstring \<Rightarrow> (jstring \<times> json) list \<Rightarrow> err + (jstring \<times> json) list" where
  "adjust_title eng prompt todo =
     (case map_of todo (js ''title'') of
        None \<Rightarrow>
          Inr (AList.update (js ''title'')
                 (JStr (if 30 < length prompt then take 30 prompt @ js ''...'' else prompt)) todo)
      | Some title \<Rightarrow>
          if \<not> truthy (Some title)
          then Inr (AList.update (js ''title'')
                 (JStr (if 30 < length prompt then take 30 prompt @ js ''...'' else prompt)) todo)
          else if length_exceeds eng title 50
          then (let todo1 = (if \<not> truthy (map_of todo (js ''description''))
                             then AList.update (js ''description'') title todo else todo)
                in case title of
                     JStr s \<Rightarrow> Inr (AList.update (js ''title'') (JStr (take 47 s @ js ''...'')) todo1)
                   | _ \<Rightarrow> Inl (type_error eng (NotAFunction (js ''substring''))))
          else Inr todo)"

definition default_priority :: "(jstring \<times> json) list \<Rightarrow> (jstring \<times> json) list" where
  "default_priority todo =
     (if \<not> truthy (map_of todo (js ''priority''))
      then AList.update (js ''priority'') (JStr (js ''medium'')) todo else todo)"

definition correct_due_date ::
  "engine \<Rightarrow> clock \<Rightarrow> (jstring \<times> json) list \<Rightarrow> (jstring \<times> json) list" where
  "correct_due_date eng clk todo =
     (case map_of todo (js ''due_date'') of
        None \<Rightarrow> todo
      | Some due \<Rightarrow>
          if truthy (Some due)
          then (let dueDate = date_value eng due;
                    today = date_value eng (JStr (currentDate clk))
                in if date_less dueDate today
                   then AList.update (js ''due_date'') (JStr (currentDate clk)) todo else todo)
          else todo)"

text \<open>
  The three steps on the parsed reply. On \<open>null\<close> the first read of \<open>todo.title\<close> throws;
  on a string, number or boolean the read gives \<open>undefined\<close> and the assignment that
  follows throws (the module is strict code); the named properties written on an array
  are not part of its serialisation, so an array comes back as it was.
\<close>

definition postprocess :: "engine \<Rightarrow> clock \<Rightarrow> jstring \<Rightarrow> json \<Rightarrow> err + json" where
  "postprocess eng clk prompt v =
     (case v of
        JNull \<Rightarrow> Inl (type_error eng (ReadOfNull (js ''title'')))
      | JObj todo \<Rightarrow>
          (case adjust_title eng prompt todo of
             Inl e \<Rightarrow> Inl e
           | Inr todo1 \<Rightarrow> Inr (JObj (correct_due_date eng clk (default_priority todo1))))
      | JArr xs \<Rightarrow> Inr (JArr xs)
      | _ \<Rightarrow> Inl (type_error eng (WriteOnPrimitive v (js ''title''))))"

section \<open>The extraction endpoint\<close>

definition msg_invalid_input :: jstring where
  "msg_invalid_input =
     [0xC798, 0xBABB, 0xB41C, 0x0020, 0xC785, 0xB825, 0xC785, 0xB2C8, 0xB2E4, 0x002E, 0x0020,
      0xB0B4, 0xC6A9, 0xC744, 0x0020, 0xD14D, 0xC2A4, 0xD2B8, 0xB85C, 0x0020, 0xC785, 0xB825,
      0xD574, 0xC8FC, 0xC138, 0xC694, 0x002E]"

definition msg_too_short :: jstring where
  "msg_too_short =
     [0xD560, 0x0020, 0xC77C, 0x0020, 0xB0B4, 0xC6A9, 0xC740, 0x0020, 0xCD5C, 0xC18C, 0x0020,
      0x0032, 0xC790, 0x0020, 0xC774, 0xC0C1, 0x0020, 0xAD6C, 0xCCB4, 0xC801, 0xC73C, 0xB85C,
      0x0020, 0xC785, 0xB825, 0xD574, 0xC8FC, 0xC138, 0xC694, 0x002E]"

definition msg_too_long :: jstring where
  "msg_too_long =
     [0xD560, 0x0020, 0xC77C, 0x0020, 0xB0B4, 0xC6A9, 0xC740, 0x0020, 0xCD5C, 0xB300, 0x0020,
      0x0035, 0x0030, 0x0030, 0xC790, 0xAE4C, 0xC9C0, 0x0020, 0xC785, 0xB825, 0x0020, 0xAC00,
      0xB2A5, 0xD569, 0xB2C8, 0xB2E4, 0x002E]"

definition msg_failed :: jstring where
  "msg_failed =
     [0x0041, 0x0049, 0x0020, 0xC694, 0xCCAD, 0x0020, 0xCC98, 0xB9AC, 0xC5D0, 0x0020, 0xC2E4,
      0xD328, 0xD588, 0xC2B5, 0xB2C8, 0xB2E4, 0x002E, 0x0020, 0xC7A0, 0xC2DC, 0x0020, 0xD6C4,
      0x0020, 0xB2E4, 0xC2DC, 0x0020, 0xC2DC, 0xB3C4, 0xD574, 0xC8FC, 0xC138, 0xC694, 0x002E]"

definition msg_rate_limit :: jstring where
  "msg_rate_limit =
     [0xC694, 0xCCAD, 0x0020, 0xD55C, 0xB3C4, 0xB97C, 0x0020, 0xCD08, 0xACFC, 0xD588, 0xC2B5,
      0xB2C8, 0xB2E4, 0x002E, 0x0020, 0xC7A0, 0xC2DC, 0x0020, 0xD6C4, 0x0020, 0xB2E4, 0xC2DC,
      0x0020, 0xC2DC, 0xB3C4, 0xD574, 0xC8FC, 0xC138, 0xC694, 0x002E]"

definition msg_bad_request :: jstring where
  "msg_bad_request =
     [0xC798, 0xBABB, 0xB41C, 0x0020, 0xC694, 0xCCAD, 0xC785, 0xB2C8, 0xB2E4, 0x002E, 0x0020,
      0xC785, 0xB825, 0xC744, 0x0020, 0xD655, 0xC778, 0xD574, 0xC8FC, 0xC138, 0xC694, 0x002E]"

text \<open>A response of \<open>NextResponse.json\<close> that carries an \<open>error\<close> text only.\<close>

definition error_only :: "nat \<Rightarrow> jstring \<Rightarrow> response" where
  "error_only st msg = \<lparr>resp_status = st, resp_body = JObj [(js ''error'', JStr msg)]\<rparr>"

text \<open>\<open>String(error)\<close> for an \<open>Error\<close> object.\<close>

definition err_to_string :: "err \<Rightarrow> jstring" where
  "err_to_string e =
     (if err_name e = [] then err_message e
      else if err_message e = [] then err_name e
      else err_name e @ js '': '' @ err_message e)"

text \<open>The \<open>catch\<close> block of the extraction endpoint.\<close>

definition error_response :: "err \<Rightarrow> response" where
  "error_response error =
     (let details = (if err_message error \<noteq> [] then err_message error else err_to_string error)
      in if str_includes (err_message error) (js ''429'')
         then \<lparr>resp_status = 429,
               resp_body = JObj [(js ''error'', JStr msg_rate_limit), (js ''details'', JStr details)]\<rparr>
         else if err_status error = Some 400 \<or> str_includes (err_message error) (js ''400'')
         then \<lparr>resp_status = 400,
               resp_body = JObj [(js ''error'', JStr msg_bad_request), (js ''details'', JStr details)]\<rparr>
         else \<lparr>resp_status = 500,
               resp_body = JObj [(js ''error'', JStr msg_failed), (js ''details'', JStr details)]\<rparr>)"

text \<open>
  \<open>POST\<close> of the extraction route, in two parts. The request is the outcome of
  \<open>req.json()\<close>: the parsed body, or the error it rejects with. The result is the response
  together with the messages handed to the Text Completion Service, in order.

  The second half of the handler, from \<open>sendMessage\<close> on, for a prompt that has passed
  the validation:
\<close>

definition extract_todo :: "engine \<Rightarrow> clock \<Rightarrow> upstream \<Rightarrow> jstring \<Rightarrow> response \<times> outgoing list" where
  "extract_todo eng clk service prompt =
     (let sent = \<lparr>out_instruction = ExtractInstruction (currentDate clk) (currentTime clk),
                  out_message = prompt\<rparr>
      in case service sent of
           Inl e \<Rightarrow> (error_response e, [sent])
         | Inr responseText \<Rightarrow>
             (case parse_response eng responseText of
                Inl e \<Rightarrow> (error_response e, [sent])
              | Inr parsed \<Rightarrow>
                  (case postprocess eng clk prompt parsed of
                     Inl e \<Rightarrow> (error_response e, [sent])
                   | Inr todo \<Rightarrow>
                       (\<lparr>resp_status = 200, resp_body = wire (JObj [(js ''todo'', todo)])\<rparr>,
                        [sent]))))"

text \<open>The first half: reading the body, the validation and the normalisation.\<close>

definition POST_generate_todo ::
  "engine \<Rightarrow> clock \<Rightarrow> upstream \<Rightarrow> err + json \<Rightarrow> response \<times> outgoing list" where
  "POST_generate_todo eng clk service req =
     (case req of
        Inl e \<Rightarrow> (error_response e, [])
      | Inr JNull \<Rightarrow> (error_response (type_error eng (ReadOfNull (js ''prompt''))), [])
      | Inr body \<Rightarrow>
          (case get_prop body (js ''prompt'') of
             Some (JStr raw) \<Rightarrow>
               if raw = [] then (error_only 400 msg_invalid_input, [])
               else
                 (let prompt = collapse_spaces (trim raw)
                  in if length prompt < 2 then (error_only 400 msg_too_short, [])
                     else if 500 < length prompt then (error_only 400 msg_too_long, [])
                     else extract_todo eng clk service prompt)
           | _ \<Rightarrow> (error_only 400 msg_invalid_input, [])))"

section \<open>The analysis endpoint\<close>

definition msg_bad_todos :: jstring where
  "msg_bad_todos =
     [0xD560, 0x0020, 0xC77C, 0x0020, 0xBAA9, 0xB85D, 0x0020, 0xB370, 0xC774, 0xD130, 0xAC00,
      0x0020, 0xC62C, 0xBC14, 0xB974, 0xC9C0, 0x0020, 0xC54A, 0xC2B5, 0xB2C8, 0xB2E4, 0x002E]"

definition msg_analysis_failed :: jstring where
  "msg_analysis_failed =
     [0x0041, 0x0049, 0x0020, 0xBD84, 0xC11D, 0x0020, 0xC911, 0x0020, 0xC624, 0xB958, 0xAC00,
      0x0020, 0xBC1C, 0xC0DD, 0xD588, 0xC2B5, 0xB2C8, 0xB2E4, 0x002E, 0x0020, 0xC7A0, 0xC2DC,
      0x0020, 0xD6C4, 0x0020, 0xB2E4, 0xC2DC, 0x0020, 0xC2DC, 0xB3C4, 0xD574, 0xC8FC, 0xC138,
      0xC694, 0x002E]"

text \<open>
  The three texts of the empty-state answer: "There are no tasks to analyse yet. Add a new
  task!", "Once you add tasks, the AI will analyse them." and "Start by writing down what
  you have to do today."
\<close>

definition empty_summary :: jstring where
  "empty_summary =
     [0xBD84, 0xC11D, 0xD560, 0x0020, 0xD560, 0x0020, 0xC77C, 0xC774, 0x0020, 0xC544, 0xC9C1,
      0x0020, 0xC5C6, 0xC2B5, 0xB2C8, 0xB2E4, 0x002E, 0x0020, 0xC0C8, 0xB85C, 0xC6B4, 0x0020,
      0xD560, 0x0020, 0xC77C, 0xC744, 0x0020, 0xCD94, 0xAC00, 0xD574, 0xBCF4, 0xC138, 0xC694,
      0x0021]"

definition empty_insight :: jstring where
  "empty_insight =
     [0xD560, 0x0020, 0xC77C, 0xC744, 0x0020, 0xCD94, 0xAC00, 0xD558, 0xBA74, 0x0020, 0x0041,
      0x0049, 0xAC00, 0x0020, 0xBD84, 0xC11D, 0xD574, 0xB4DC, 0xB9BD, 0xB2C8, 0xB2E4, 0x002E]"

definition empty_recommendation :: jstring where
  "empty_recommendation =
     [0xBA3C, 0xC800, 0x0020, 0xC624, 0xB298, 0x0020, 0xD574, 0xC57C, 0x0020, 0xD560, 0x0020,
      0xC77C, 0xC744, 0x0020, 0xAE30, 0xB85D, 0xD558, 0xB294, 0x0020, 0xAC83, 0xBD80, 0xD130,
      0x0020, 0xC2DC, 0xC791, 0xD574, 0xBCF4, 0xC138, 0xC694, 0x002E]"

definition empty_result :: json where
  "empty_result =
     JObj [(js ''summary'', JStr empty_summary),
           (js ''urgentTasks'', JArr []),
           (js ''insights'', JArr [JStr empty_insight]),
           (js ''recommendations'', JArr [JStr empty_recommendation])]"

text \<open>The labels of the two timeframes: "today" and "this week".\<close>

definition label_today :: jstring where
  "label_today = [0xC624, 0xB298, 0x0020, 0xD558, 0xB8E8]"

definition label_week :: jstring where
  "label_week = [0xC774, 0xBC88, 0x0020, 0xC8FC]"

definition timeframeText :: "json option \<Rightarrow> jstring" where
  "timeframeText timeframe =
     (if timeframe = Some (JStr (js ''today'')) then label_today else label_week)"

text \<open>The \<open>catch\<close> block of the analysis endpoint.\<close>

definition analysis_error_response :: "err \<Rightarrow> response" where
  "analysis_error_response error =
     \<lparr>resp_status = 500,
      resp_body = JObj [(js ''error'', JStr msg_analysis_failed),
                        (js ''details'', JStr (err_message error))]\<rparr>"

text \<open>
  The object built for each task inside \<open>todos.map\<close>. A property whose value is
  \<open>undefined\<close> is left out by \<open>JSON.stringify\<close>, so it is left out here.
\<close>

definition projected_fields :: "jstring list" where
  "projected_fields =
     [js ''title'', js ''priority'', js ''due_date'', js ''due_time'', js ''completed'',
      js ''category'', js ''created_at'']"

definition project :: "json \<Rightarrow> json" where
  "project t =
     JObj (concat (map (\<lambda>k. case get_prop t k of None \<Rightarrow> [] | Some v \<Rightarrow> [(k, v)])
                       projected_fields))"

definition todosText :: "engine \<Rightarrow> json list \<Rightarrow> jstring" where
  "todosText eng todos = stringify eng (JArr (map project todos))"

definition analysis_prompt :: "engine \<Rightarrow> json option \<Rightarrow> json list \<Rightarrow> jstring" where
  "analysis_prompt eng timeframe todos =
     js ''Here is my todo list for '' @ timeframeText timeframe @ js '': ''
       @ todosText eng todos @ js ''. Please analyze it.''"

text \<open>
  The handler for a task list that is not empty. Reading \<open>t.title\<close> from an element that
  is \<open>null\<close> throws before anything is sent.
\<close>

definition analyze ::
  "engine \<Rightarrow> clock \<Rightarrow> upstream \<Rightarrow> json list \<Rightarrow> json option \<Rightarrow> response \<times> outgoing list" where
  "analyze eng clk service todos timeframe =
     (if JNull \<in> set todos
      then (analysis_error_response (type_error eng (ReadOfNull (js ''title''))), [])
      else
        (let sent = \<lparr>out_instruction =
                       AnalyzeInstruction (currentDate clk) (currentTime clk)
                         (timeframeText timeframe),
                     out_message = analysis_prompt eng timeframe todos\<rparr>
         in case service sent of
              Inl e \<Rightarrow> (analysis_error_response e, [sent])
            | Inr responseText \<Rightarrow>
                (case parse_response eng responseText of
                   Inl e \<Rightarrow> (analysis_error_response e, [sent])
                 | Inr analysisH \<Rightarrow>
                     (\<lparr>resp_status = 200, resp_body = wire analysisH\<rparr>, [sent]))))"

text \<open>\<open>POST\<close> of the analysis route.\<close>

definition POST_analyze_todos ::
  "engine \<Rightarrow> clock \<Rightarrow> upstream \<Rightarrow> err + json \<Rightarrow> response \<times> outgoing list" where
  "POST_analyze_todos eng clk service req =
     (case req of
        Inl e \<Rightarrow> (analysis_error_response e, [])
      | Inr JNull \<Rightarrow> (analysis_error_response (type_error eng (ReadOfNull (js ''todos''))), [])
      | Inr body \<Rightarrow>
          (case get_prop body (js ''todos'') of
             Some (JArr todos) \<Rightarrow>
               if todos = [] then (\<lparr>resp_status = 200, resp_body = empty_result\<rparr>, [])
               else analyze eng clk service todos (get_prop body (js ''timeframe''))
           | _ \<Rightarrow> (error_only 400 msg_bad_todos, [])))"

section \<open>The form's handling of the extracted priority\<close>

text \<open>
  The priority part of \<open>handleAiGenerate\<close> in the task form, applied to \<open>todo.priority\<close> of
  the endpoint's answer: the value the form's priority field is set to, or the
  \<open>TypeError\<close> raised when the value is truthy and has no \<open>toLowerCase\<close>.
\<close>

definition priorityValue :: "engine \<Rightarrow> json option \<Rightarrow> err + jstring" where
  "priorityValue eng priority =
     (if truthy priority
      then (case priority of
              Some (JStr s) \<Rightarrow>
                (let lowerPriority = to_lower eng s
                 in if lowerPriority \<in> set [js ''high'', js ''medium'', js ''low'']
                    then Inr lowerPriority else Inr (js ''medium''))
            | _ \<Rightarrow> Inl (type_error eng (NotAFunction (js ''toLowerCase''))))
      else Inr (js ''medium''))"

section \<open>The specification's side\<close>

text \<open>
  A reply wrapped in the code-fence marker: the opening marker, the text, the closing
  marker.
\<close>

definition fenced :: "jstring \<Rightarrow> jstring" where
  "fenced text = fence_open @ text @ fence_close"

text \<open>
  The status categories of the specification for a failure that reaches the \<open>catch\<close>
  block: 429 for a rate limit of the completion service, 400 for a request it refused as
  bad, 500 for every other upstream or internal failure. The kind of an upstream failure is
  the HTTP status its error carries; an internal failure carries none.
\<close>

definition spec_failure_status :: "err \<Rightarrow> nat" where
  "spec_failure_status e =
     (if err_status e = Some 429 then 429 else if err_status e = Some 400 then 400 else 500)"

text \<open>
  Two tasks that agree on the seven fields of the minimal projection: neither is \<open>null\<close>,
  and each of the fields is absent in both or has the same value in both. Every other
  field, the description among them, is free.
\<close>

definition same_projection :: "json \<Rightarrow> json \<Rightarrow> bool" where
  "same_projection a b \<longleftrightarrow>
     a \<noteq> JNull \<and> b \<noteq> JNull \<and> (\<forall>k\<in>set projected_fields. get_prop a k = get_prop b k)"

text \<open>A value all of whose numbers are finite and none the negative zero.\<close>

primrec plain_json :: "json \<Rightarrow> bool" where
  "plain_json JNull = True"
| "plain_json (JBool b) = True"
| "plain_json (JNum x) = (case x of Finite r \<Rightarrow> True | _ \<Rightarrow> False)"
| "plain_json (JStr s) = True"
| "plain_json (JArr xs) = list_all id (map plain_json xs)"
| "plain_json (JObj kvs) = list_all snd (map (map_prod id plain_json) kvs)"

text \<open>The current date as a day number: the days from 1970-01-01 to the clock's UTC date.\<close>

definition current_day :: "clock \<Rightarrow> int" where
  "current_day clk = make_day (int (utc_year clk)) (utc_month clk) (utc_day clk)"

section \<open>A sample environment\<close>

text \<open>
  An engine for evaluating the handlers on examples: no date text beyond the date-only
  form is recognised, a string, array or object converts to NaN, a decimal value is taken
  to be a double as it is, every value serialises to the empty text, the messages follow the wording of V8 for short texts, and lower-casing covers the
  ASCII letters.
\<close>

definition sample_fault_msg :: "fault \<Rightarrow> jstring" where
  "sample_fault_msg f =
     (case f of
        ReadOfNull k \<Rightarrow> js ''Cannot read properties of null (reading '' @ k @ js '')''
      | WriteOnPrimitive v k \<Rightarrow> js ''Cannot create property '' @ k
      | NotAFunction k \<Rightarrow> k @ js '' is not a function'')"

definition sample_engine :: engine where
  "sample_engine =
     \<lparr>date_impl = (\<lambda>v. None),
      to_number = (\<lambda>v. NaN),
      to_double = (\<lambda>x. x),
      syntax_msg = (\<lambda>text. js ''Unexpected token '' @ [0x27] @ take 1 text @ [0x27] @ js '', ''
                              @ [0x22] @ text @ [0x22] @ js '' is not valid JSON''),
      fault_msg = sample_fault_msg,
      stringify = (\<lambda>v. []),
      to_lower = map (\<lambda>c. if 0x41 \<le> c \<and> c \<le> 0x5A then c + 0x20 else c)\<rparr>"

definition sample_clock :: clock where
  "sample_clock =
     \<lparr>utc_year = 2024, utc_month = 1, utc_day = 2, local_hour = 8, local_minute = 0\<rparr>"

section \<open>Basic facts\<close>

lemma map_of_update:
  "map_of (AList.update k v al) k' = (if k' = k then Some v else map_of al k')"
  by (simp add: update_conv')

lemma default_priority_other:
  "k \<noteq> js ''priority'' \<Longrightarrow> map_of (default_priority todo) k = map_of todo k"
  by (simp add: default_priority_def map_of_update)

lemma correct_due_date_other:
  "k \<noteq> js ''due_date'' \<Longrightarrow> map_of (correct_due_date eng clk todo) k = map_of todo k"
  by (simp add: correct_due_date_def map_of_update Let_def split: option.splits)

lemma later_steps_title:
  "map_of (correct_due_date eng clk (default_priority todo)) (js ''title'')
     = map_of todo (js ''title'')"
  by (simp add: correct_due_date_other default_priority_other js_def)

lemma later_steps_description:
  "map_of (correct_due_date eng clk (default_priority todo)) (js ''description'')
     = map_of todo (js ''description'')"
  by (simp add: correct_due_date_other default_priority_other js_def)

lemma adjust_title_other:
  assumes "adjust_title eng prompt todo = Inr todo1"
    and "k \<noteq> js ''title''" and "k \<noteq> js ''description''"
  shows "map_of todo1 k = map_of todo k"
proof (cases "map_of todo (js ''title'')")
  case None
  then show ?thesis using assms by (auto simp: adjust_title_def map_of_update)
next
  case (Some title)
  then show ?thesis using assms
    by (auto simp: adjust_title_def map_of_update Let_def split: if_splits json.splits)
qed

lemma digit_val_digit: "digit_val (digit n) = Some (n mod 10)"
proof -
  have b: "48 + n mod 10 < 2 ^ 16" by simp
  have u: "unat (of_nat (48 + n mod 10) :: cu) = 48 + n mod 10"
    using b by (simp add: unat_of_nat take_bit_nat_eq_self del: of_nat_add)
  have l: "(0x30 :: cu) \<le> of_nat (48 + n mod 10)"
    unfolding word_le_nat_alt u by simp
  have r: "(of_nat (48 + n mod 10) :: cu) \<le> 0x39"
    unfolding word_le_nat_alt u by simp
  show ?thesis
    unfolding digit_val_def digit_def using l r u by simp
qed

lemma digits2: "m \<le> 99 \<Longrightarrow> 10 * (m div 10 mod 10) + m mod 10 = (m::nat)"
proof -
  assume "m \<le> 99"
  then have "m div 10 < 10" by simp
  then show ?thesis by simp
qed

lemma digits4: 
  assumes "y \<le> 9999"
  shows "1000 * (y div 1000 mod 10) + 100 * (y div 100 mod 10) + 10 * (y div 10 mod 10) + y mod 10 = (y::nat)"
proof -
  have a: "y mod 10000 = 1000 * (y div 1000 mod 10) + y mod 1000"
    using mod_mult2_eq[of y 1000 10] by simp
  have b: "y mod 1000 = 100 * (y div 100 mod 10) + y mod 100"
    using mod_mult2_eq[of y 100 10] by simp
  have c: "y mod 100 = 10 * (y div 10 mod 10) + y mod 10"
    using mod_mult2_eq[of y 10 10] by simp
  have "y mod 10000 = y" using assms by simp
  then show ?thesis using a b c by linarith
qed

lemma days_in_month_le: "days_in_month y m \<le> 31"
  by (simp add: days_in_month_def)

lemma parse_currentDate:
  assumes "utc_year clk \<le> 9999" "1 \<le> utc_month clk" "utc_month clk \<le> 12"
    "1 \<le> utc_day clk" "utc_day clk \<le> days_in_month (int (utc_year clk)) (utc_month clk)"
  shows "parse_iso_date (currentDate clk) = Some (current_day clk * ms_per_day)"
proof -
  define y m d where "y = utc_year clk" and "m = utc_month clk" and "d = utc_day clk"
  have d: "d \<le> 99" using assms(5) days_in_month_le[of "int (utc_year clk)" "utc_month clk"]
    unfolding d_def by linarith
  have m: "m \<le> 99" using assms(3) unfolding m_def by linarith
  have e: "currentDate clk = [digit (y div 1000), digit (y div 100), digit (y div 10), digit y,
       0x2D, digit (m div 10), digit m, 0x2D, digit (d div 10), digit d]"
    using assms(1) by (simp add: currentDate_def pad4_def pad2_def js_def y_def m_def d_def)
  have "parse_iso_date (currentDate clk) =
     (let yy = int (1000 * (y div 1000 mod 10) + 100 * (y div 100 mod 10) + 10 * (y div 10 mod 10) + y mod 10);
          mm = 10 * (m div 10 mod 10) + m mod 10; dd = 10 * (d div 10 mod 10) + d mod 10
      in if 1 \<le> mm \<and> mm \<le> 12 \<and> 1 \<le> dd \<and> dd \<le> days_in_month yy mm
              then Some (make_day yy mm dd * ms_per_day) else None)"
    unfolding e by (simp add: digit_val_digit del: of_nat_add of_nat_mult)
  also have "\<dots> = Some (make_day (int y) m d * ms_per_day)"
    unfolding digits4[OF assms(1)[folded y_def]] digits2[OF m] digits2[OF d] Let_def
    using assms by (simp add: y_def m_def d_def)
  finally show ?thesis by (simp add: current_day_def y_def m_def d_def)
qed

lemma div_less_pos:
  fixes t d k :: int
  assumes "0 < k"
  shows "t < d * k \<longleftrightarrow> t div k < d"
proof
  assume h: "t < d * k"
  show "t div k < d"
  proof (rule ccontr)
    assume "\<not> t div k < d"
    then have "d \<le> t div k" by simp
    then have "d * k \<le> (t div k) * k" using assms by (simp add: mult_right_mono)
    moreover have "(t div k) * k \<le> t"
    proof -
      have "t = (t div k) * k + t mod k" by simp
      moreover have "0 \<le> t mod k" using assms by simp
      ultimately show ?thesis by linarith
    qed
    ultimately show False using h by linarith
  qed
next
  assume h: "t div k < d"
  then have "t div k + 1 \<le> d" by simp
  then have "(t div k + 1) * k \<le> d * k" using assms by (simp add: mult_right_mono)
  moreover have "t < (t div k + 1) * k"
  proof -
    have "t = (t div k) * k + t mod k" by simp
    moreover have "t mod k < k" using assms by simp
    ultimately have "t < (t div k) * k + k" by linarith
    then show ?thesis by (simp add: algebra_simps)
  qed
  ultimately show "t < d * k" by linarith
qed

lemma before_midnight: "t < d * ms_per_day \<longleftrightarrow> t div ms_per_day < (d::int)"
  by (rule div_less_pos) (simp add: ms_per_day_def)

lemma adjust_title_priority:
  "adjust_title eng prompt todo = Inr todo1 \<Longrightarrow>
   map_of todo1 (js ''priority'') = map_of todo (js ''priority'')"
  by (rule adjust_title_other) (simp_all add: js_def)

lemma postprocess_priority:
  assumes "postprocess eng clk prompt (JObj todo) = Inr (JObj todo')"
  shows "map_of todo' (js ''priority'')
           = (if truthy (map_of todo (js ''priority'')) then map_of todo (js ''priority'')
              else Some (JStr (js ''medium'')))"
proof -
  obtain todo1 where a: "adjust_title eng prompt todo = Inr todo1"
    and r: "todo' = correct_due_date eng clk (default_priority todo1)"
    using assms by (auto simp: postprocess_def split: sum.splits)
  have k: "js ''priority'' \<noteq> js ''due_date''" by (simp add: js_def)
  show ?thesis
    unfolding r using adjust_title_priority[OF a] k
    by (simp add: correct_due_date_other default_priority_def map_of_update)
qed

lemma project_cong:
  assumes "\<forall>k\<in>set projected_fields. get_prop a k = get_prop b k"
  shows "project a = project b"
proof -
  have e: "map (\<lambda>k. case get_prop a k of None \<Rightarrow> [] | Some v \<Rightarrow> [(k, v)]) projected_fields
      = map (\<lambda>k. case get_prop b k of None \<Rightarrow> [] | Some v \<Rightarrow> [(k, v)]) projected_fields"
    using assms by (intro map_cong) simp_all
  show ?thesis unfolding project_def e by (rule refl)
qed

lemma same_projection_map:
  "list_all2 same_projection xs ys \<Longrightarrow> map project xs = map project ys"
  by (induction rule: list_all2_induct) (simp_all add: same_projection_def project_cong)

lemma same_projection_no_null:
  "list_all2 same_projection xs ys \<Longrightarrow> JNull \<notin> set xs \<and> JNull \<notin> set ys"
  by (induction rule: list_all2_induct) (auto simp: same_projection_def)

lemma postprocess_text_title:
  assumes "map_of todo (js ''title'') = None \<or> (\<exists>s. map_of todo (js ''title'') = Some (JStr s))"
  shows "\<exists>todo'. postprocess eng clk prompt (JObj todo) = Inr (JObj todo')"
proof -
  have "\<exists>todo1. adjust_title eng prompt todo = Inr todo1"
    using assms by (auto simp: adjust_title_def Let_def)
  then show ?thesis by (auto simp: postprocess_def)
qed

section \<open>The scanner, the code fence and white space\<close>

lemma lex_top_ok: "lex_top c = Some (st, ts) \<Longrightarrow> lstate_ok st"
  by (auto simp: lex_top_def lstate_ok_def js_def split: if_splits)

lemma lex_step_ok: "lstate_ok st \<Longrightarrow> lex_step st c = Some (st', ts) \<Longrightarrow> lstate_ok st'"
proof (cases st)
  case LTop
  then show "lex_step st c = Some (st', ts) \<Longrightarrow> lstate_ok st'" by (simp add: lex_top_ok)
next
  case (LNum ph a)
  then show "lex_step st c = Some (st', ts) \<Longrightarrow> lstate_ok st'"
    by (auto simp: lstate_ok_def split: option.splits if_splits dest: lex_top_ok)
qed (auto simp: lstate_ok_def split: option.splits if_splits list.splits)

lemma space_not_digit: "js_space c \<Longrightarrow> digit_val c = None"
  by (auto simp: js_space_def digit_val_def word_le_nat_alt)

lemma space_not_hex: "js_space c \<Longrightarrow> hex_val c = None"
  by (auto simp: js_space_def hex_val_def word_le_nat_alt)

lemma backquote_not_digit: "digit_val 0x60 = None" "hex_val 0x60 = None"
  by (simp_all add: digit_val_def hex_val_def)

lemma space_not_sign: "js_space c \<Longrightarrow> c \<noteq> 0x2E \<and> c \<noteq> 0x65 \<and> c \<noteq> 0x45 \<and> c \<noteq> 0x2B \<and> c \<noteq> 0x2D"
  by (auto simp: js_space_def word_le_nat_alt)

lemma num_step_space: "js_space c \<Longrightarrow> num_step ph a c = None"
  using space_not_sign[of c] by (cases ph) (simp_all add: space_not_digit)

lemma num_step_backquote: "num_step ph a 0x60 = None"
  by (cases ph) (simp_all add: backquote_not_digit)

lemma lex_top_backquote: "lex_top 0x60 = None"
  by (simp add: lex_top_def json_space_def)

lemma lex_top_space: 
  assumes "js_space c" and "lex_top c = Some (st, ts)" shows "st = LTop \<and> ts = []"
proof -
  have "\<not> (0x31 \<le> c \<and> c \<le> 0x39)" using assms(1) by (auto simp: js_space_def word_le_nat_alt)
  moreover have "c \<noteq> 0x7B \<and> c \<noteq> 0x7D \<and> c \<noteq> 0x5B \<and> c \<noteq> 0x5D \<and> c \<noteq> 0x3A \<and> c \<noteq> 0x2C \<and> c \<noteq> 0x22
     \<and> c \<noteq> 0x2D \<and> c \<noteq> 0x30 \<and> c \<noteq> 0x74 \<and> c \<noteq> 0x66 \<and> c \<noteq> 0x6E"
    using assms(1) by (auto simp: js_space_def word_le_nat_alt)
  ultimately show ?thesis using assms(2) by (simp add: lex_top_def split: if_splits)
qed


lemma reject_newline_backquote:
  assumes "lstate_ok st" shows "lex_run st (0x0A # 0x60 # ds) = None"
proof (cases st)
  case LTop
  then show ?thesis by (simp add: lex_top_def json_space_def)
next
  case (LLit tok rest)
  then show ?thesis using assms
    by (cases rest) (auto simp: lstate_ok_def word_le_nat_alt)
next
  case (LNum ph a)
  have "js_space 0x0A" by (simp add: js_space_def)
  then have "num_step ph a 0x0A = None" by (rule num_step_space)
  then show ?thesis using LNum by (simp add: lex_top_def json_space_def)
qed (simp_all add: unescape_def hex_val_def)

lemma backquote_in_string:
  assumes "lstate_ok st" and "lex_step st 0x60 = Some (st', ts)"
  shows "\<exists>acc. st = LStr acc \<and> st' = LStr (0x60 # acc)"
proof (cases st)
  case LTop
  then show ?thesis using assms(2) by (simp add: lex_top_backquote)
next
  case (LStr acc)
  then show ?thesis using assms(2) by simp
next
  case (LEsc acc)
  then show ?thesis using assms(2) by (simp add: unescape_def)
next
  case (LUni acc k v)
  then show ?thesis using assms(2) by (simp add: backquote_not_digit)
next
  case (LLit tok rest)
  then show ?thesis using assms
    by (cases rest) (auto simp: lstate_ok_def word_le_nat_alt split: if_splits)
next
  case (LNum ph a)
  then show ?thesis using assms(2)
    by (simp add: num_step_backquote lex_top_backquote split: if_splits)
qed

lemma string_rejects_open_marker:
  "lex_run (LStr acc) (0x60 # 0x60 # 0x6A # 0x73 # 0x6F # 0x6E # 0x0A # ds) = None"
  by simp

lemma string_rejects_open_marker_end:
  "lex_run (LStr acc) [0x60, 0x60, 0x6A, 0x73, 0x6F, 0x6E] = None"
  by (simp add: lex_finish_def)

lemma fence_open_unfold: "fence_open = [0x60, 0x60, 0x60, 0x6A, 0x73, 0x6F, 0x6E, 0x0A]"
  by (simp add: fence_open_def js_def)

lemma fence_close_unfold: "fence_close = [0x0A, 0x60, 0x60, 0x60]"
  by (simp add: fence_close_def js_def)

lemma no_close_marker:
  assumes "lstate_ok st" and "lex_run st (c # cs) = Some ts"
  shows "\<not> prefix fence_close (c # cs @ fence_close)"
proof
  assume p: "prefix fence_close (c # cs @ fence_close)"
  then have c: "c = 0x0A" by (simp add: fence_close_unfold)
  have "cs \<noteq> []" using p by (auto simp: fence_close_unfold)
  then obtain d ds where cs: "cs = d # ds" by (cases cs) auto
  then have "d = 0x60" using p by (simp add: fence_close_unfold)
  then show False using reject_newline_backquote[OF assms(1), of ds] assms(2) c cs by simp
qed

lemma no_open_marker:
  assumes "lstate_ok st" and "lex_run st (c # cs) = Some ts"
  shows "\<not> prefix fence_open (c # cs @ fence_close)"
proof
  assume p: "prefix fence_open (c # cs @ fence_close)"
  then have c: "c = 0x60" by (simp add: fence_open_unfold)
  obtain st' ts' where s: "lex_step st 0x60 = Some (st', ts')" and r: "lex_run st' cs \<noteq> None"
    using assms(2) c by (auto split: option.splits)
  obtain acc where st': "st' = LStr (0x60 # acc)"
    using backquote_in_string[OF assms(1) s] by auto
  have q: "prefix [0x60, 0x60, 0x6A, 0x73, 0x6F, 0x6E, 0x0A] (cs @ fence_close)"
    using p by (simp add: fence_open_unfold)
  have "prefix [0x60, 0x60, 0x6A, 0x73, 0x6F, 0x6E, 0x0A] cs
        \<or> (\<exists>us. [0x60, 0x60, 0x6A, 0x73, 0x6F, 0x6E, 0x0A] = cs @ us \<and> prefix us fence_close)"
    using q by (simp only: prefix_append)
  then consider (long) ds where "cs = 0x60 # 0x60 # 0x6A # 0x73 # 0x6F # 0x6E # 0x0A # ds"
    | (short) "cs = [0x60, 0x60, 0x6A, 0x73, 0x6F, 0x6E]"
  proof (elim disjE exE conjE)
    assume "prefix [0x60, 0x60, 0x6A, 0x73, 0x6F, 0x6E, 0x0A] cs"
    then obtain ds where "cs = [0x60, 0x60, 0x6A, 0x73, 0x6F, 0x6E, 0x0A] @ ds"
      by (auto elim: prefixE)
    then show ?thesis using that(1) by simp
  next
    fix us
    assume e: "[0x60, 0x60, 0x6A, 0x73, 0x6F, 0x6E, 0x0A] = cs @ us" and u: "prefix us fence_close"
    show ?thesis
    proof (cases us)
      case Nil
      then show ?thesis using e that(1)[of "[]"] by simp
    next
      case (Cons u us')
      then have "u = 0x0A" using u by (simp add: fence_close_unfold)
      then have "cs @ 0x0A # us' = [0x60, 0x60, 0x6A, 0x73, 0x6F, 0x6E, 0x0A]"
        using e Cons by simp
      then have "cs = [0x60, 0x60, 0x6A, 0x73, 0x6F, 0x6E]"
        by (auto simp: append_eq_Cons_conv)
      then show ?thesis by (rule that(2))
    qed
  qed
  then show False
  proof cases
    case long
    then show ?thesis using r st' string_rejects_open_marker by simp
  next
    case short
    then show ?thesis using r st' string_rejects_open_marker_end by simp
  qed
qed

lemma strip_fence_accepted:
  assumes "lstate_ok st" and "lex_run st t = Some ts"
  shows "strip_fence (t @ fence_close) = t"
  using assms
proof (induction t arbitrary: st ts)
  case Nil
  show ?case by (simp add: fence_close_unfold fence_open_unfold)
next
  case (Cons c cs)
  obtain st' ts' where s: "lex_step st c = Some (st', ts')" and r: "lex_run st' cs \<noteq> None"
    using Cons.prems(2) by (auto split: option.splits)
  have ok: "lstate_ok st'" by (rule lex_step_ok[OF Cons.prems(1) s])
  obtain us where "lex_run st' cs = Some us" using r by auto
  then have ih: "strip_fence (cs @ fence_close) = cs" using Cons.IH[OF ok] by simp
  have "strip_fence ((c # cs) @ fence_close) = c # strip_fence (cs @ fence_close)"
    using no_open_marker[OF Cons.prems] no_close_marker[OF Cons.prems] by simp
  then show ?case using ih by simp
qed

lemma strip_fence_fenced:
  assumes "lex_run LTop t = Some ts" shows "strip_fence (fenced t) = t"
proof -
  have "strip_fence (fenced t) = strip_fence (t @ fence_close)"
    by (simp add: fenced_def fence_open_unfold)
  then show ?thesis using strip_fence_accepted[OF _ assms] by (simp add: lstate_ok_def)
qed

lemma lex_run_drop_spaces:
  "lex_run LTop t = Some ts \<Longrightarrow> lex_run LTop (dropWhile js_space t) = Some ts"
proof (induction t)
  case Nil
  then show ?case by simp
next
  case (Cons c cs)
  show ?case
  proof (cases "js_space c")
    case True
    obtain st' ts' where s: "lex_top c = Some (st', ts')"
      using Cons.prems by (auto split: option.splits)
    then have "st' = LTop \<and> ts' = []" using lex_top_space[OF True] by simp
    then have "lex_run LTop cs = Some ts" using Cons.prems s by (auto split: option.splits)
    then show ?thesis using Cons.IH True by simp
  next
    case False
    then show ?thesis using Cons.prems by simp
  qed
qed

lemma space_in_state:
  assumes "lstate_ok st" and "js_space c" and "lex_step st c = Some (st', ts1)"
    and "lex_finish st' = Some us"
  shows "lex_finish st = Some (ts1 @ us)"
proof (cases st)
  case LTop
  then show ?thesis using assms(3,4) lex_top_space[OF assms(2), of st' ts1] by simp
next
  case (LStr acc)
  have "c \<noteq> 0x22" using assms(2) by (auto simp: js_space_def word_le_nat_alt)
  then show ?thesis using LStr assms(3,4) by (auto simp: lex_finish_def split: if_splits)
next
  case (LEsc acc)
  then show ?thesis using assms(3,4) by (auto simp: lex_finish_def split: if_splits option.splits)
next
  case (LUni acc k v)
  then show ?thesis using assms(3) by (simp add: space_not_hex[OF assms(2)])
next
  case (LLit tok rest)
  have "\<not> (0x61 \<le> c \<and> c \<le> 0x7A)" using assms(2) by (auto simp: js_space_def word_le_nat_alt)
  then show ?thesis using LLit assms(1,3)
    by (cases rest) (auto simp: lstate_ok_def split: if_splits)
next
  case (LNum ph a)
  have n: "num_step ph a c = None" by (rule num_step_space[OF assms(2)])
  have acc: "accepting ph" using assms(3) LNum n by (simp split: if_splits)
  obtain s t where t: "lex_top c = Some (s, t)"
    using assms(3) LNum n acc by (auto split: option.splits)
  then have "s = LTop \<and> t = []" using lex_top_space[OF assms(2)] by simp
  then have "st' = LTop" "ts1 = [TNum (num_neg a) (num_magnitude a)]"
    using assms(3) LNum n acc t by simp_all
  then show ?thesis using assms(4) LNum acc by (simp add: lex_finish_def)
qed

lemma lex_run_spaces:
  assumes "lstate_ok st" and "\<forall>c\<in>set w. js_space c" and "lex_run st w = Some ts"
  shows "lex_finish st = Some ts"
  using assms
proof (induction w arbitrary: st ts)
  case Nil
  then show ?case by simp
next
  case (Cons c cs)
  obtain st' ts1 us where s: "lex_step st c = Some (st', ts1)" and r: "lex_run st' cs = Some us"
    and t: "ts = ts1 @ us"
    using Cons.prems(3) by (auto split: option.splits)
  have ok: "lstate_ok st'" by (rule lex_step_ok[OF Cons.prems(1) s])
  have sp: "js_space c" "\<forall>c\<in>set cs. js_space c" using Cons.prems(2) by simp_all
  have "lex_finish st' = Some us" by (rule Cons.IH[OF ok sp(2) r])
  then show ?case using space_in_state[OF Cons.prems(1) sp(1) s] t by simp
qed

lemma lex_run_drop_trailing:
  assumes "lstate_ok st" and "\<forall>c\<in>set w. js_space c" and "lex_run st (u @ w) = Some ts"
  shows "lex_run st u = Some ts"
  using assms
proof (induction u arbitrary: st ts)
  case Nil
  then have "lex_finish st = Some ts" using lex_run_spaces[of st w ts] by simp
  then show ?case by simp
next
  case (Cons c cs)
  obtain st' ts1 us where s: "lex_step st c = Some (st', ts1)"
    and r: "lex_run st' (cs @ w) = Some us" and t: "ts = ts1 @ us"
    using Cons.prems(3) by (auto split: option.splits)
  have ok: "lstate_ok st'" by (rule lex_step_ok[OF Cons.prems(1) s])
  have "lex_run st' cs = Some us" by (rule Cons.IH[OF ok Cons.prems(2) r])
  then show ?case using s t by simp
qed

lemma lex_run_trim:
  assumes "lex_run LTop t = Some ts" shows "lex_run LTop (trim t) = Some ts"
proof -
  define t1 where "t1 = dropWhile js_space t"
  define w where "w = rev (takeWhile js_space (rev t1))"
  have a: "lex_run LTop t1 = Some ts" unfolding t1_def by (rule lex_run_drop_spaces[OF assms])
  have tr: "trim t = rev (dropWhile js_space (rev t1))" by (simp only: trim_def t1_def)
  have "trim t @ w = rev (takeWhile js_space (rev t1) @ dropWhile js_space (rev t1))"
    unfolding tr w_def by (simp only: rev_append)
  also have "\<dots> = rev (rev t1)" by (simp only: takeWhile_dropWhile_id)
  also have "\<dots> = t1" by (simp only: rev_rev_ident)
  finally have e: "trim t @ w = t1" .
  have sp: "\<forall>c\<in>set w. js_space c"
  proof
    fix c assume "c \<in> set w"
    then have "c \<in> set (takeWhile js_space (rev t1))" by (simp only: w_def set_rev)
    then show "js_space c" by (rule set_takeWhileD[THEN conjunct2])
  qed
  have h: "lex_run LTop (trim t @ w) = Some ts" using a by (simp only: e)
  have ok: "lstate_ok LTop" by (simp add: lstate_ok_def)
  show ?thesis by (rule lex_run_drop_trailing[OF ok sp h])
qed

lemma JSON_parse_fenced: "JSON_parse eng (fenced t) = None"
  by (simp add: JSON_parse_def fenced_def fence_open_unfold lex_top_backquote)

lemma JSON_parse_trim: "JSON_parse eng t = Some v \<Longrightarrow> JSON_parse eng (trim t) = Some v"
  by (auto simp: JSON_parse_def lex_run_trim split: option.splits)

lemma cleanJson_fenced:
  assumes "JSON_parse eng t = Some v" shows "JSON_parse eng (cleanJson (fenced t)) = Some v"
proof -
  obtain ts where l: "lex_run LTop t = Some ts"
    using assms by (auto simp: JSON_parse_def split: option.splits)
  show ?thesis
    unfolding cleanJson_def strip_fence_fenced[OF l] by (rule JSON_parse_trim[OF assms])
qed

lemma validation_rejects:
  assumes "body \<noteq> JNull"
    and "\<forall>raw. get_prop body (js ''prompt'') = Some (JStr raw) \<longrightarrow>
           length (collapse_spaces (trim raw)) < 2 \<or> 500 < length (collapse_spaces (trim raw))"
  shows "POST_generate_todo eng clk service (Inr body) = (error_only 400 msg_invalid_input, [])
       \<or> POST_generate_todo eng clk service (Inr body) = (error_only 400 msg_too_short, [])
       \<or> POST_generate_todo eng clk service (Inr body) = (error_only 400 msg_too_long, [])"
proof (cases "get_prop body (js ''prompt'')")
  case None
  then show ?thesis using assms(1)
    by (cases body) (auto simp: POST_generate_todo_def)
next
  case (Some p)
  show ?thesis
  proof (cases p)
    case (JStr raw)
    then have "length (collapse_spaces (trim raw)) < 2 \<or> 500 < length (collapse_spaces (trim raw))"
      using assms(2) Some by simp
    then show ?thesis using assms(1) Some JStr
      by (cases body) (auto simp: POST_generate_todo_def Let_def)
  qed (use assms(1) Some in \<open>cases body; auto simp: POST_generate_todo_def\<close>)+
qed

lemma valid_prompt_extracted:
  assumes "get_prop body (js ''prompt'') = Some (JStr raw)"
    and "2 \<le> length (collapse_spaces (trim raw))"
    and "length (collapse_spaces (trim raw)) \<le> 500"
  shows "POST_generate_todo eng clk service (Inr body)
           = extract_todo eng clk service (collapse_spaces (trim raw))"
proof -
  have "raw \<noteq> []" using assms(2) by (auto simp: trim_def)
  then show ?thesis using assms
    by (cases body) (simp_all add: POST_generate_todo_def Let_def)
qed

lemma get_prop_wire: "get_prop (wire v) k = map_option wire (get_prop v k)"
proof (cases v)
  case (JObj kvs)
  have "map_of (map (map_prod id wire) kvs) k = map_option wire (map_of kvs k)"
    by (induction kvs) auto
  then show ?thesis using JObj by simp
next
  case (JNum x)
  then show ?thesis by (cases x) simp_all
qed simp_all

lemma wire_plain: "plain_json v \<Longrightarrow> wire v = v"
proof (induction v)
  case (JNum x)
  then show ?case by (cases x) simp_all
next
  case (JArr xs)
  then show ?case by (auto simp: list_all_iff intro: map_idI)
next
  case (JObj kvs)
  have "map_prod id wire kv = kv" if "kv \<in> set kvs" for kv
  proof -
    have "plain_json (snd kv)" using JObj.prems that by (auto simp: list_all_iff)
    moreover have "snd kv \<in> Basic_BNFs.snds kv" by (cases kv) simp
    ultimately have "wire (snd kv) = snd kv" using JObj.IH that by blast
    then show ?thesis by (cases kv) simp
  qed
  then show ?case by (simp add: map_idI)
qed simp_all

section \<open>Validation of the prompt\<close>

text \<open>
  A body that is \<open>null\<close> has no prompt, and yet it is not answered by the validation:
  taking \<open>prompt\<close> out of it throws, and the \<open>catch\<close> block answers with status 500.
\<close>

theorem null_body_not_validated:
  "get_prop JNull (js ''prompt'') = None
   \<and> POST_generate_todo sample_engine sample_clock (\<lambda>m. Inr (js ''{}'')) (Inr JNull)
       = (\<lparr>resp_status = 500,
           resp_body = JObj [(js ''error'', JStr msg_failed),
                             (js ''details'',
                              JStr (js ''Cannot read properties of null (reading prompt)''))]\<rparr>,
          [])"
  by (simp add: POST_generate_todo_def error_response_def type_error_def sample_engine_def
      sample_fault_msg_def str_includes_def js_def sublist_Cons_right Let_def)

text \<open>
  C1, as the code has it. A request body other than \<open>null\<close> whose \<open>prompt\<close> is missing
  or not a string, or whose prompt, trimmed and with its runs of white space collapsed,
  has fewer than 2 or more than 500 code units, is answered with status 400 and one of
  the three validation texts, and nothing is handed to the Text Completion Service.
  Nothing is handed to it either when the body is \<open>null\<close> or cannot be read, where the
  handler answers from its \<open>catch\<close> block.
\<close>

theorem invalid_prompt_rejected:
  "(body \<noteq> JNull
    \<and> (\<forall>raw. get_prop body (js ''prompt'') = Some (JStr raw) \<longrightarrow>
           length (collapse_spaces (trim raw)) < 2 \<or> 500 < length (collapse_spaces (trim raw)))
    \<longrightarrow> POST_generate_todo eng clk service (Inr body) = (error_only 400 msg_invalid_input, [])
       \<or> POST_generate_todo eng clk service (Inr body) = (error_only 400 msg_too_short, [])
       \<or> POST_generate_todo eng clk service (Inr body) = (error_only 400 msg_too_long, []))
   \<and> POST_generate_todo eng clk service (Inr JNull)
       = (error_response (type_error eng (ReadOfNull (js ''prompt''))), [])
   \<and> POST_generate_todo eng clk service (Inl e) = (error_response e, [])"
proof (intro conjI impI)
  assume "body \<noteq> JNull
    \<and> (\<forall>raw. get_prop body (js ''prompt'') = Some (JStr raw) \<longrightarrow>
           length (collapse_spaces (trim raw)) < 2 \<or> 500 < length (collapse_spaces (trim raw)))"
  then show "POST_generate_todo eng clk service (Inr body) = (error_only 400 msg_invalid_input, [])
       \<or> POST_generate_todo eng clk service (Inr body) = (error_only 400 msg_too_short, [])
       \<or> POST_generate_todo eng clk service (Inr body) = (error_only 400 msg_too_long, [])"
    using validation_rejects[of body eng clk service] by blast
qed (simp_all add: POST_generate_todo_def)

text \<open>An instance: the prompt \<open>"   a   "\<close> normalises to one code unit.\<close>

theorem invalid_prompt_rejected_witness:
  "JObj [(js ''prompt'', JStr (js ''   a   ''))] \<noteq> JNull
   \<and> get_prop (JObj [(js ''prompt'', JStr (js ''   a   ''))]) (js ''prompt'')
       = Some (JStr (js ''   a   ''))
   \<and> length (collapse_spaces (trim (js ''   a   ''))) < 2
   \<and> POST_generate_todo sample_engine sample_clock (\<lambda>m. Inr (js ''{}''))
          (Inr (JObj [(js ''prompt'', JStr (js ''   a   ''))])) = (error_only 400 msg_too_short, [])"
  using invalid_prompt_rejected
          [of "JObj [(js ''prompt'', JStr (js ''   a   ''))]" sample_engine sample_clock
              "\<lambda>m. Inr (js ''{}'')"]
  by (simp add: js_def trim_def js_space_def POST_generate_todo_def)

section \<open>The title\<close>

text \<open>
  C6. When the parsed reply is an object without a title (or with a falsy one), the
  post-processed title is the normalised prompt, cut to its first 30 code units and
  followed by three dots when the prompt is longer than 30.
\<close>

theorem missing_title_from_prompt:
  assumes "\<not> truthy (map_of todo (js ''title''))"
  shows "\<exists>todo'. postprocess eng clk prompt (JObj todo) = Inr (JObj todo')
           \<and> map_of todo' (js ''title'')
               = Some (JStr (if 30 < length prompt then take 30 prompt @ js ''...'' else prompt))"
proof -
  let ?t = "JStr (if 30 < length prompt then take 30 prompt @ js ''...'' else prompt)"
  have a: "adjust_title eng prompt todo = Inr (AList.update (js ''title'') ?t todo)"
    using assms by (cases "map_of todo (js ''title'')") (simp_all add: adjust_title_def)
  show ?thesis
    by (simp add: postprocess_def a later_steps_title map_of_update)
qed

text \<open>An instance with a prompt of 37 code units.\<close>

theorem missing_title_from_prompt_witness:
  "\<not> truthy (map_of [(js ''priority'', JStr (js ''high''))] (js ''title''))
   \<and> (\<exists>todo'. postprocess sample_engine sample_clock (js ''submit the quarterly report by Friday'')
                  (JObj [(js ''priority'', JStr (js ''high''))]) = Inr (JObj todo')
         \<and> map_of todo' (js ''title'') = Some (JStr (js ''submit the quarterly report by...'')))"
  using missing_title_from_prompt
          [of "[(js ''priority'', JStr (js ''high''))]" sample_engine sample_clock
              "js ''submit the quarterly report by Friday''"]
  by (simp add: js_def)

text \<open>
  C7. When the parsed reply is an object whose title is a string of more than 50 code
  units, the post-processed title is its first 47 code units followed by three dots (50
  code units in all); the description becomes the whole original title when it was absent
  or falsy, and is left as it was otherwise.
\<close>

theorem long_title_truncated:
  assumes "map_of todo (js ''title'') = Some (JStr s)" and "50 < length s"
  shows "\<exists>todo'. postprocess eng clk prompt (JObj todo) = Inr (JObj todo')
           \<and> map_of todo' (js ''title'') = Some (JStr (take 47 s @ js ''...''))
           \<and> length (take 47 s @ js ''...'') = 50
           \<and> map_of todo' (js ''description'')
               = (if truthy (map_of todo (js ''description''))
                  then map_of todo (js ''description'') else Some (JStr s))"
proof -
  let ?todo1 = "if \<not> truthy (map_of todo (js ''description''))
                then AList.update (js ''description'') (JStr s) todo else todo"
  have ne: "s \<noteq> []" using assms(2) by auto
  have a: "adjust_title eng prompt todo
             = Inr (AList.update (js ''title'') (JStr (take 47 s @ js ''...'')) ?todo1)"
    using assms ne by (simp add: adjust_title_def length_exceeds_def Let_def)
  have k: "js ''description'' \<noteq> js ''title''" by (simp add: js_def)
  have l: "length (take 47 s @ js ''...'') = 50" using assms(2) by (simp add: js_def)
  have p: "postprocess eng clk prompt (JObj todo)
             = Inr (JObj (correct_due_date eng clk (default_priority
                 (AList.update (js ''title'') (JStr (take 47 s @ js ''...'')) ?todo1))))"
    by (simp only: postprocess_def a json.case sum.case)
  show ?thesis
    unfolding p using k l
    by (simp add: later_steps_title later_steps_description map_of_update)
qed

text \<open>An instance with a title of 63 code units and no description.\<close>

theorem long_title_truncated_witness:
  "map_of [(js ''title'', JStr (js ''prepare the slides and the handout for the Monday board meeting''))]
      (js ''title'')
     = Some (JStr (js ''prepare the slides and the handout for the Monday board meeting''))
   \<and> 50 < length (js ''prepare the slides and the handout for the Monday board meeting'')
   \<and> (\<exists>todo'. postprocess sample_engine sample_clock (js ''slides'')
          (JObj [(js ''title'',
                  JStr (js ''prepare the slides and the handout for the Monday board meeting''))])
            = Inr (JObj todo')
         \<and> map_of todo' (js ''title'')
             = Some (JStr (js ''prepare the slides and the handout for the Mond...''))
         \<and> map_of todo' (js ''description'')
             = Some (JStr (js ''prepare the slides and the handout for the Monday board meeting'')))"
  using long_title_truncated
          [of "[(js ''title'',
                 JStr (js ''prepare the slides and the handout for the Monday board meeting''))]"
              "js ''prepare the slides and the handout for the Monday board meeting''"
              sample_engine sample_clock "js ''slides''"]
  by (simp add: js_def)

section \<open>The empty task list\<close>

text \<open>
  C4. A request whose \<open>todos\<close> is the empty array is answered, whatever the timeframe, with
  the fixed empty-state result: the summary text, no urgent tasks, one insight and one
  recommendation; nothing is handed to the Text Completion Service.
\<close>

theorem empty_task_list_canned:
  assumes "get_prop body (js ''todos'') = Some (JArr [])"
  shows "POST_analyze_todos eng clk service (Inr body)
           = (\<lparr>resp_status = 200,
               resp_body = JObj [(js ''summary'', JStr empty_summary),
                                 (js ''urgentTasks'', JArr []),
                                 (js ''insights'', JArr [JStr empty_insight]),
                                 (js ''recommendations'', JArr [JStr empty_recommendation])]\<rparr>,
              [])"
  using assms by (cases body) (simp_all add: POST_analyze_todos_def empty_result_def)

text \<open>An instance with the timeframe \<open>today\<close>.\<close>

theorem empty_task_list_canned_witness:
  "get_prop (JObj [(js ''todos'', JArr []), (js ''timeframe'', JStr (js ''today''))]) (js ''todos'')
     = Some (JArr [])
   \<and> POST_analyze_todos sample_engine sample_clock (\<lambda>m. Inr (js ''{}''))
         (Inr (JObj [(js ''todos'', JArr []), (js ''timeframe'', JStr (js ''today''))]))
       = (\<lparr>resp_status = 200, resp_body = empty_result\<rparr>, [])"
  using empty_task_list_canned
          [of "JObj [(js ''todos'', JArr []), (js ''timeframe'', JStr (js ''today''))]"
              sample_engine sample_clock "\<lambda>m. Inr (js ''{}'')"]
  by (simp add: js_def empty_result_def)

section \<open>The due date\<close>

text \<open>
  C2. Let the clock show a date of the calendar up to the year 9999, and let the parsed
  reply be an object with a truthy \<open>due_date\<close> that \<open>new Date\<close> reads as the time value
  \<open>t\<close>. Whenever post-processing yields a result, its \<open>due_date\<close> is the current date in
  the form \<open>YYYY-MM-DD\<close> if the day of \<open>t\<close> (in UTC, whatever its time of day) lies before
  the current date, and the value the reply had otherwise. Post-processing does yield a
  result when the reply's title is absent or a string.
\<close>

theorem past_due_date_corrected:
  assumes "utc_year clk \<le> 9999" "1 \<le> utc_month clk" "utc_month clk \<le> 12"
    "1 \<le> utc_day clk" "utc_day clk \<le> days_in_month (int (utc_year clk)) (utc_month clk)"
    and "map_of todo (js ''due_date'') = Some due" and "truthy (Some due)"
    and "date_value eng due = Some t"
  shows "(\<forall>todo'. postprocess eng clk prompt (JObj todo) = Inr (JObj todo') \<longrightarrow>
            map_of todo' (js ''due_date'')
              = Some (if t div ms_per_day < current_day clk then JStr (currentDate clk) else due))
       \<and> (map_of todo (js ''title'') = None \<or> (\<exists>s. map_of todo (js ''title'') = Some (JStr s)) \<longrightarrow>
            (\<exists>todo'. postprocess eng clk prompt (JObj todo) = Inr (JObj todo')))"
proof (intro conjI allI impI)
  fix todo'
  assume p: "postprocess eng clk prompt (JObj todo) = Inr (JObj todo')"
  obtain todo1 where a: "adjust_title eng prompt todo = Inr todo1"
    and r: "todo' = correct_due_date eng clk (default_priority todo1)"
    using p by (auto simp: postprocess_def split: sum.splits)
  have "map_of todo1 (js ''due_date'') = Some due"
    using adjust_title_other[OF a, of "js ''due_date''"] assms(6) by (simp add: js_def)
  then have d: "map_of (default_priority todo1) (js ''due_date'') = Some due"
    by (simp add: default_priority_other js_def)
  have today: "date_value eng (JStr (currentDate clk)) = Some (current_day clk * ms_per_day)"
    using parse_currentDate[OF assms(1-5)] by (simp add: date_value_def)
  show "map_of todo' (js ''due_date'')
          = Some (if t div ms_per_day < current_day clk then JStr (currentDate clk) else due)"
    unfolding r using d assms(7,8) today
    by (simp add: correct_due_date_def Let_def date_less_def map_of_update before_midnight)
next
  assume "map_of todo (js ''title'') = None \<or> (\<exists>s. map_of todo (js ''title'') = Some (JStr s))"
  then show "\<exists>todo'. postprocess eng clk prompt (JObj todo) = Inr (JObj todo')"
    by (rule postprocess_text_title)
qed

text \<open>An instance: on 2024-01-02 the due date 2023-12-31 is replaced.\<close>

theorem past_due_date_corrected_witness:
  "utc_year sample_clock \<le> 9999 \<and> 1 \<le> utc_month sample_clock \<and> utc_month sample_clock \<le> 12
   \<and> 1 \<le> utc_day sample_clock
   \<and> utc_day sample_clock \<le> days_in_month (int (utc_year sample_clock)) (utc_month sample_clock)
   \<and> postprocess sample_engine sample_clock (js ''pay rent'')
        (JObj [(js ''title'', JStr (js ''Pay rent'')), (js ''due_date'', JStr (js ''2023-12-31''))])
       = Inr (JObj [(js ''title'', JStr (js ''Pay rent'')), (js ''due_date'', JStr (js ''2024-01-02'')),
                    (js ''priority'', JStr (js ''medium''))])
   \<and> map_of [(js ''title'', JStr (js ''Pay rent'')), (js ''due_date'', JStr (js ''2023-12-31''))]
         (js ''due_date'') = Some (JStr (js ''2023-12-31''))
   \<and> map_of [(js ''title'', JStr (js ''Pay rent'')), (js ''due_date'', JStr (js ''2024-01-02'')),
             (js ''priority'', JStr (js ''medium''))] (js ''due_date'')
       = Some (JStr (js ''2024-01-02''))
   \<and> truthy (Some (JStr (js ''2023-12-31'')))
   \<and> date_value sample_engine (JStr (js ''2023-12-31'')) = Some 1703980800000
   \<and> 1703980800000 div ms_per_day < current_day sample_clock
   \<and> currentDate sample_clock = js ''2024-01-02''"
  using past_due_date_corrected [of sample_clock
      "[(js ''title'', JStr (js ''Pay rent'')), (js ''due_date'', JStr (js ''2023-12-31''))]"
      "JStr (js ''2023-12-31'')" sample_engine 1703980800000 "js ''pay rent''"]
  by (simp add: js_def sample_clock_def sample_engine_def days_in_month_def leap_year_def
      postprocess_def adjust_title_def length_exceeds_def default_priority_def correct_due_date_def
      date_value_def date_less_def digit_val_def make_day_def day_from_year_def ms_per_day_def
      currentDate_def pad4_def pad2_def digit_def current_day_def upt_rec)

section \<open>The priority\<close>

text \<open>
  The endpoint alone does not bring the priority into the three values: an unrecognised
  text such as \<open>URGENT\<close> and a number are passed on as they are, and on the number the
  form's handler throws.
\<close>

theorem unrecognised_priority_kept:
  "postprocess sample_engine sample_clock (js ''call mom'')
     (JObj [(js ''title'', JStr (js ''Call mom'')), (js ''priority'', JStr (js ''URGENT''))])
     = Inr (JObj [(js ''title'', JStr (js ''Call mom'')), (js ''priority'', JStr (js ''URGENT''))])
   \<and> js ''URGENT'' \<noteq> js ''high'' \<and> js ''URGENT'' \<noteq> js ''medium'' \<and> js ''URGENT'' \<noteq> js ''low''
   \<and> postprocess sample_engine sample_clock (js ''call mom'')
        (JObj [(js ''title'', JStr (js ''Call mom'')), (js ''priority'', JNum (Finite 5))])
       = Inr (JObj [(js ''title'', JStr (js ''Call mom'')), (js ''priority'', JNum (Finite 5))])
   \<and> priorityValue sample_engine (Some (JNum (Finite 5)))
       = Inl (type_error sample_engine (NotAFunction (js ''toLowerCase'')))"
  by (simp add: js_def postprocess_def adjust_title_def length_exceeds_def default_priority_def
      correct_due_date_def priorityValue_def)

text \<open>
  C3, as the code has it. Post-processing accepts an object or an array. In an object it
  replaces an absent or falsy priority by \<open>medium\<close> and leaves every other priority as it
  is; an array comes back as it was, without a priority. From the answer the form's
  handler then sets \<open>medium\<close> when there is no priority and, for a priority that is a
  string, its lower-case form when that is \<open>high\<close>, \<open>medium\<close> or \<open>low\<close> and \<open>medium\<close>
  otherwise; whenever the handler yields a value, it is one of the three. An object whose
  title is absent or a string, and every array, is accepted.
\<close>

theorem priority_defaulted_then_matched:
  "(postprocess eng clk prompt v = Inr r \<longrightarrow>
      ((\<exists>todo. v = JObj todo
          \<and> get_prop r (js ''priority'')
              = (if truthy (map_of todo (js ''priority'')) then map_of todo (js ''priority'')
                 else Some (JStr (js ''medium''))))
       \<or> (\<exists>xs. v = JArr xs \<and> r = v \<and> get_prop r (js ''priority'') = None))
      \<and> (get_prop r (js ''priority'') = None \<longrightarrow>
            priorityValue eng (get_prop (wire r) (js ''priority'')) = Inr (js ''medium''))
      \<and> (\<forall>s. get_prop r (js ''priority'') = Some (JStr s) \<longrightarrow>
            priorityValue eng (get_prop (wire r) (js ''priority''))
              = Inr (if to_lower eng s \<in> {js ''high'', js ''medium'', js ''low''}
                     then to_lower eng s else js ''medium'')))
   \<and> (\<forall>p. priorityValue eng w = Inr p \<longrightarrow> p \<in> {js ''high'', js ''medium'', js ''low''})
   \<and> (map_of todo (js ''title'') = None \<or> (\<exists>s. map_of todo (js ''title'') = Some (JStr s)) \<longrightarrow>
        (\<exists>r. postprocess eng clk prompt (JObj todo) = Inr (JObj r)))
   \<and> postprocess eng clk prompt (JArr xs) = Inr (JArr xs)"
proof (intro conjI allI impI)
  assume a: "postprocess eng clk prompt v = Inr r"
  show "(\<exists>todo. v = JObj todo
          \<and> get_prop r (js ''priority'')
              = (if truthy (map_of todo (js ''priority'')) then map_of todo (js ''priority'')
                 else Some (JStr (js ''medium''))))
       \<or> (\<exists>xs. v = JArr xs \<and> r = v \<and> get_prop r (js ''priority'') = None)"
  proof (cases v)
    case (JObj todo)
    then obtain todo' where r: "r = JObj todo'"
      using a by (auto simp: postprocess_def split: sum.splits)
    show ?thesis using postprocess_priority[of eng clk prompt todo todo'] a JObj r by simp
  next
    case (JArr xs)
    then show ?thesis using a by (auto simp: postprocess_def)
  qed (use a in \<open>simp_all add: postprocess_def\<close>)
next
  assume "get_prop r (js ''priority'') = None"
  then show "priorityValue eng (get_prop (wire r) (js ''priority'')) = Inr (js ''medium'')"
    by (simp add: get_prop_wire priorityValue_def)
next
  fix s
  assume a: "postprocess eng clk prompt v = Inr r"
    and h: "get_prop r (js ''priority'') = Some (JStr s)"
  have "s \<noteq> []"
  proof (cases v)
    case (JObj todo)
    then obtain todo' where r: "r = JObj todo'"
      using a by (auto simp: postprocess_def split: sum.splits)
    have "truthy (map_of todo' (js ''priority''))"
      using postprocess_priority[of eng clk prompt todo todo'] a JObj r by (simp add: js_def)
    then show ?thesis using h r by simp
  next
    case (JArr xs)
    then show ?thesis using a h by (auto simp: postprocess_def)
  qed (use a in \<open>simp_all add: postprocess_def\<close>)
  then show "priorityValue eng (get_prop (wire r) (js ''priority''))
               = Inr (if to_lower eng s \<in> {js ''high'', js ''medium'', js ''low''}
                      then to_lower eng s else js ''medium'')"
    using h by (simp add: get_prop_wire priorityValue_def Let_def)
next
  fix p assume "priorityValue eng w = Inr p"
  then show "p \<in> {js ''high'', js ''medium'', js ''low''}"
    by (auto simp: priorityValue_def Let_def split: if_splits option.splits json.splits)
next
  assume "map_of todo (js ''title'') = None \<or> (\<exists>s. map_of todo (js ''title'') = Some (JStr s))"
  then show "\<exists>r. postprocess eng clk prompt (JObj todo) = Inr (JObj r)"
    by (rule postprocess_text_title)
next
  show "postprocess eng clk prompt (JArr xs) = Inr (JArr xs)"
    by (simp add: postprocess_def)
qed

text \<open>
  Two instances: \<open>High\<close> passes the endpoint unchanged and the form sets \<open>high\<close>; the
  empty array passes unchanged and the form sets \<open>medium\<close>.
\<close>

theorem priority_defaulted_then_matched_witness:
  "postprocess sample_engine sample_clock (js ''call mom'')
     (JObj [(js ''title'', JStr (js ''Call mom'')), (js ''priority'', JStr (js ''High''))])
     = Inr (JObj [(js ''title'', JStr (js ''Call mom'')), (js ''priority'', JStr (js ''High''))])
   \<and> get_prop (JObj [(js ''title'', JStr (js ''Call mom'')), (js ''priority'', JStr (js ''High''))])
        (js ''priority'') = Some (JStr (js ''High''))
   \<and> priorityValue sample_engine
        (get_prop (wire (JObj [(js ''title'', JStr (js ''Call mom'')),
                               (js ''priority'', JStr (js ''High''))])) (js ''priority''))
       = Inr (js ''high'')
   \<and> postprocess sample_engine sample_clock (js ''call mom'') (JArr []) = Inr (JArr [])
   \<and> priorityValue sample_engine (get_prop (wire (JArr [])) (js ''priority'')) = Inr (js ''medium'')"
  using priority_defaulted_then_matched [of sample_engine sample_clock "js ''call mom''"
     "JObj [(js ''title'', JStr (js ''Call mom'')), (js ''priority'', JStr (js ''High''))]"
     "JObj [(js ''title'', JStr (js ''Call mom'')), (js ''priority'', JStr (js ''High''))]"
     "Some (JStr (js ''High''))"
     "[(js ''title'', JStr (js ''Call mom'')), (js ''priority'', JStr (js ''High''))]" "[]"]
  by (simp add: js_def postprocess_def adjust_title_def length_exceeds_def default_priority_def
      correct_due_date_def priorityValue_def sample_engine_def)

section \<open>The payload of the analysis\<close>

text \<open>
  C8. When two requests carry the same timeframe and task lists that are not empty and
  agree, task by task, on title, priority, due_date, due_time, completed, category and
  created_at, the handler behaves the same on both: the same single message goes to the
  Text Completion Service and the same response comes back, however the descriptions (or
  any other fields) differ.
\<close>

theorem descriptions_not_sent:
  assumes "get_prop body1 (js ''todos'') = Some (JArr todos1)"
    and "get_prop body2 (js ''todos'') = Some (JArr todos2)"
    and "get_prop body1 (js ''timeframe'') = get_prop body2 (js ''timeframe'')"
    and "todos1 \<noteq> []"
    and "list_all2 same_projection todos1 todos2"
  shows "POST_analyze_todos eng clk service (Inr body1) = POST_analyze_todos eng clk service (Inr body2)
       \<and> snd (POST_analyze_todos eng clk service (Inr body1))
           = [\<lparr>out_instruction = AnalyzeInstruction (currentDate clk) (currentTime clk)
                                   (timeframeText (get_prop body2 (js ''timeframe''))),
               out_message = analysis_prompt eng (get_prop body2 (js ''timeframe'')) todos2\<rparr>]"
proof -
  have ne2: "todos2 \<noteq> []" using assms(4,5) by auto
  have m: "map project todos1 = map project todos2" by (rule same_projection_map[OF assms(5)])
  have n: "JNull \<notin> set todos1" "JNull \<notin> set todos2"
    using same_projection_no_null[OF assms(5)] by simp_all
  have p: "analysis_prompt eng tf todos1 = analysis_prompt eng tf todos2" for tf
    by (simp add: analysis_prompt_def todosText_def m)
  have b1: "POST_analyze_todos eng clk service (Inr body1)
              = analyze eng clk service todos1 (get_prop body1 (js ''timeframe''))"
    using assms(1,4) by (cases body1) (simp_all add: POST_analyze_todos_def)
  have b2: "POST_analyze_todos eng clk service (Inr body2)
              = analyze eng clk service todos2 (get_prop body2 (js ''timeframe''))"
    using assms(2) ne2 by (cases body2) (simp_all add: POST_analyze_todos_def)
  have a: "analyze eng clk service todos1 tf = analyze eng clk service todos2 tf" for tf
    using n by (simp add: analyze_def p)
  have s: "snd (analyze eng clk service todos2 tf)
             = [\<lparr>out_instruction = AnalyzeInstruction (currentDate clk) (currentTime clk)
                                     (timeframeText tf),
                 out_message = analysis_prompt eng tf todos2\<rparr>]" for tf
    using n by (simp add: analyze_def Let_def split: sum.splits)
  show ?thesis
    unfolding b1 b2 assms(3) a s by simp
qed

text \<open>An instance: two one-task lists that differ in the description only.\<close>

theorem descriptions_not_sent_witness:
  "get_prop (JObj [(js ''todos'', JArr [JObj [(js ''title'', JStr (js ''pay rent'')),
                                              (js ''description'', JStr (js ''account 12-345''))]])])
      (js ''todos'')
     = Some (JArr [JObj [(js ''title'', JStr (js ''pay rent'')),
                         (js ''description'', JStr (js ''account 12-345''))]])
   \<and> list_all2 same_projection
        [JObj [(js ''title'', JStr (js ''pay rent'')), (js ''description'', JStr (js ''account 12-345''))]]
        [JObj [(js ''title'', JStr (js ''pay rent''))]]
   \<and> POST_analyze_todos sample_engine sample_clock (\<lambda>m. Inr (js ''{}''))
        (Inr (JObj [(js ''todos'', JArr [JObj [(js ''title'', JStr (js ''pay rent'')),
                                                (js ''description'', JStr (js ''account 12-345''))]])]))
       = POST_analyze_todos sample_engine sample_clock (\<lambda>m. Inr (js ''{}''))
           (Inr (JObj [(js ''todos'', JArr [JObj [(js ''title'', JStr (js ''pay rent''))]])]))"
  using descriptions_not_sent
          [of "JObj [(js ''todos'', JArr [JObj [(js ''title'', JStr (js ''pay rent'')),
                                                (js ''description'', JStr (js ''account 12-345''))]])]"
              "[JObj [(js ''title'', JStr (js ''pay rent'')),
                      (js ''description'', JStr (js ''account 12-345''))]]"
              "JObj [(js ''todos'', JArr [JObj [(js ''title'', JStr (js ''pay rent''))]])]"
              "[JObj [(js ''title'', JStr (js ''pay rent''))]]"
              sample_engine sample_clock "\<lambda>m. Inr (js ''{}'')"]
  by (simp add: js_def same_projection_def projected_fields_def)

section \<open>The error responses of the extraction endpoint\<close>

text \<open>
  The status does not follow the kind of the failure: a reply of the completion service
  that cannot be parsed is an upstream failure without a rate limit, for which the
  specification asks 500; when the engine's message quotes the reply and the reply
  contains \<open>429\<close>, the endpoint answers 429.
\<close>

theorem unparseable_reply_reported_as_rate_limit:
  "POST_generate_todo sample_engine sample_clock (\<lambda>m. Inr (js ''Error 429''))
      (Inr (JObj [(js ''prompt'', JStr (js ''buy milk''))]))
     = (error_response (syntax_error sample_engine (js ''Error 429'')),
        [\<lparr>out_instruction = ExtractInstruction (js ''2024-01-02'') (js ''08:00''),
          out_message = js ''buy milk''\<rparr>])
   \<and> err_status (syntax_error sample_engine (js ''Error 429'')) = None
   \<and> spec_failure_status (syntax_error sample_engine (js ''Error 429'')) = 500
   \<and> resp_status (error_response (syntax_error sample_engine (js ''Error 429''))) = 429"
proof -
  have t: "trim (js ''buy milk'') = js ''buy milk''"
    by (simp add: trim_def js_space_def js_def)
  have c: "collapse_spaces (js ''buy milk'') = js ''buy milk''"
    by (simp add: js_space_def js_def)
  have p1: "JSON_parse sample_engine (js ''Error 429'') = None"
    by (simp add: JSON_parse_def js_def lex_top_def json_space_def)
  have s: "strip_fence (js ''Error 429'') = js ''Error 429''"
    by (simp add: js_def fence_open_def fence_close_def)
  have t2: "trim (js ''Error 429'') = js ''Error 429''"
    by (simp add: trim_def js_space_def js_def)
  have pr: "parse_response sample_engine (js ''Error 429'')
              = Inl (syntax_error sample_engine (js ''Error 429''))"
    by (simp add: parse_response_def p1 cleanJson_def s t2)
  have d: "currentDate sample_clock = js ''2024-01-02''" "currentTime sample_clock = js ''08:00''"
    by (simp_all add: currentDate_def currentTime_def sample_clock_def pad4_def pad2_def digit_def js_def)
  have e: "extract_todo sample_engine sample_clock (\<lambda>m. Inr (js ''Error 429'')) (js ''buy milk'')
     = (error_response (syntax_error sample_engine (js ''Error 429'')),
        [\<lparr>out_instruction = ExtractInstruction (js ''2024-01-02'') (js ''08:00''),
          out_message = js ''buy milk''\<rparr>])"
    by (simp add: extract_todo_def pr d)
  have l: "length (js ''buy milk'') = 8" by (simp add: js_def)
  have g: "get_prop (JObj [(js ''prompt'', JStr (js ''buy milk''))]) (js ''prompt'') = Some (JStr (js ''buy milk''))"
    by simp
  have ne: "js ''buy milk'' \<noteq> []" by (simp add: js_def)
  have P: "POST_generate_todo sample_engine sample_clock (\<lambda>m. Inr (js ''Error 429''))
      (Inr (JObj [(js ''prompt'', JStr (js ''buy milk''))]))
     = extract_todo sample_engine sample_clock (\<lambda>m. Inr (js ''Error 429'')) (js ''buy milk'')"
    unfolding POST_generate_todo_def using ne by (simp add: g t c l Let_def del: get_prop.simps)
  have st: "resp_status (error_response (syntax_error sample_engine (js ''Error 429''))) = 429"
    by (simp add: error_response_def syntax_error_def sample_engine_def str_includes_def js_def
         sublist_Cons_right Let_def)
  show ?thesis
    unfolding P e using st by (simp add: spec_failure_status_def syntax_error_def)
qed

text \<open>
  C9, as the code has it. Every failure of the endpoint is accounted for, each with the
  error that is caught:
  \<^item> a body that cannot be read is answered from the \<open>catch\<close> block with the error
    \<open>req.json()\<close> rejected with, a \<open>null\<close> body with the \<open>TypeError\<close> of the read;
  \<^item> a body other than \<open>null\<close> with an invalid prompt is answered with status 400 and a
    validation text alone;
  \<^item> with a valid prompt, an error thrown by the call of the completion service, the
    \<open>SyntaxError\<close> of the second parse and a \<open>TypeError\<close> of the post-processing are each
    answered from the \<open>catch\<close> block with that very error.

  For the caught error \<open>e\<close> the status is 429 when its message contains \<open>429\<close>; otherwise
  400 when its status is 400 or its message contains \<open>400\<close>; otherwise 500. The body
  carries the fixed text that goes with the status as \<open>error\<close> and, as \<open>details\<close>, the
  message of \<open>e\<close> (its string form when the message is empty).
\<close>

theorem error_status_by_message:
  "POST_generate_todo eng clk service (Inl e) = (error_response e, [])
   \<and> POST_generate_todo eng clk service (Inr JNull)
       = (error_response (type_error eng (ReadOfNull (js ''prompt''))), [])
   \<and> (body \<noteq> JNull
       \<and> (\<forall>raw. get_prop body (js ''prompt'') = Some (JStr raw) \<longrightarrow>
              length (collapse_spaces (trim raw)) < 2 \<or> 500 < length (collapse_spaces (trim raw)))
       \<longrightarrow> (\<exists>msg. (msg = msg_invalid_input \<or> msg = msg_too_short \<or> msg = msg_too_long)
               \<and> POST_generate_todo eng clk service (Inr body) = (error_only 400 msg, [])))
   \<and> (get_prop body (js ''prompt'') = Some (JStr raw)
       \<and> 2 \<le> length (collapse_spaces (trim raw)) \<and> length (collapse_spaces (trim raw)) \<le> 500
       \<longrightarrow> POST_generate_todo eng clk service (Inr body)
             = extract_todo eng clk service (collapse_spaces (trim raw)))
   \<and> (service \<lparr>out_instruction = ExtractInstruction (currentDate clk) (currentTime clk),
                 out_message = prompt\<rparr> = Inl e
       \<longrightarrow> extract_todo eng clk service prompt
             = (error_response e,
                [\<lparr>out_instruction = ExtractInstruction (currentDate clk) (currentTime clk),
                  out_message = prompt\<rparr>]))
   \<and> (service \<lparr>out_instruction = ExtractInstruction (currentDate clk) (currentTime clk),
                 out_message = prompt\<rparr> = Inr reply
       \<and> parse_response eng reply = Inl e
       \<longrightarrow> extract_todo eng clk service prompt
             = (error_response e,
                [\<lparr>out_instruction = ExtractInstruction (currentDate clk) (currentTime clk),
                  out_message = prompt\<rparr>]))
   \<and> (service \<lparr>out_instruction = ExtractInstruction (currentDate clk) (currentTime clk),
                 out_message = prompt\<rparr> = Inr reply
       \<and> parse_response eng reply = Inr parsed \<and> postprocess eng clk prompt parsed = Inl e
       \<longrightarrow> extract_todo eng clk service prompt
             = (error_response e,
                [\<lparr>out_instruction = ExtractInstruction (currentDate clk) (currentTime clk),
                  out_message = prompt\<rparr>]))
   \<and> resp_status (error_response e)
       = (if str_includes (err_message e) (js ''429'') then 429
          else if err_status e = Some 400 \<or> str_includes (err_message e) (js ''400'') then 400
          else 500)
   \<and> resp_body (error_response e)
       = JObj [(js ''error'',
                JStr (if str_includes (err_message e) (js ''429'') then msg_rate_limit
                      else if err_status e = Some 400 \<or> str_includes (err_message e) (js ''400'')
                      then msg_bad_request else msg_failed)),
               (js ''details'',
                JStr (if err_message e \<noteq> [] then err_message e else err_to_string e))]"
proof (intro conjI impI)
  assume "body \<noteq> JNull
       \<and> (\<forall>raw. get_prop body (js ''prompt'') = Some (JStr raw) \<longrightarrow>
              length (collapse_spaces (trim raw)) < 2 \<or> 500 < length (collapse_spaces (trim raw)))"
  then show "\<exists>msg. (msg = msg_invalid_input \<or> msg = msg_too_short \<or> msg = msg_too_long)
               \<and> POST_generate_todo eng clk service (Inr body) = (error_only 400 msg, [])"
    using validation_rejects[of body eng clk service] by blast
next
  assume "get_prop body (js ''prompt'') = Some (JStr raw)
       \<and> 2 \<le> length (collapse_spaces (trim raw)) \<and> length (collapse_spaces (trim raw)) \<le> 500"
  then show "POST_generate_todo eng clk service (Inr body)
             = extract_todo eng clk service (collapse_spaces (trim raw))"
    using valid_prompt_extracted[of body raw eng clk service] by blast
qed (simp_all add: POST_generate_todo_def extract_todo_def error_response_def Let_def)

text \<open>
  An instance: the call of the completion service fails with a rate-limit error of the
  client library, whose message carries the status of the failed call.
\<close>

theorem error_status_by_message_witness:
  "POST_generate_todo sample_engine sample_clock
      (\<lambda>m. Inl \<lparr>err_name = js ''Error'',
                 err_message = js ''[429 Too Many Requests] quota exceeded'',
                 err_status = Some 429\<rparr>)
      (Inr (JObj [(js ''prompt'', JStr (js ''buy milk''))]))
     = (\<lparr>resp_status = 429,
         resp_body = JObj [(js ''error'', JStr msg_rate_limit),
                           (js ''details'', JStr (js ''[429 Too Many Requests] quota exceeded''))]\<rparr>,
        [\<lparr>out_instruction = ExtractInstruction (js ''2024-01-02'') (js ''08:00''),
          out_message = js ''buy milk''\<rparr>])"
proof -
  let ?e = "\<lparr>err_name = js ''Error'', err_message = js ''[429 Too Many Requests] quota exceeded'',
             err_status = Some 429\<rparr>"
  have n: "collapse_spaces (trim (js ''buy milk'')) = js ''buy milk''"
    by (simp add: trim_def js_space_def js_def)
  have d: "currentDate sample_clock = js ''2024-01-02''" "currentTime sample_clock = js ''08:00''"
    by (simp_all add: currentDate_def currentTime_def sample_clock_def pad4_def pad2_def digit_def
        js_def)
  have i: "str_includes (js ''[429 Too Many Requests] quota exceeded'') (js ''429'')"
    by (simp add: str_includes_def js_def sublist_Cons_right)
  have l: "length (js ''buy milk'') = 8" by (simp add: js_def)
  note T = error_status_by_message
            [of sample_engine sample_clock "\<lambda>m. Inl ?e" ?e
                "JObj [(js ''prompt'', JStr (js ''buy milk''))]" "js ''buy milk''"
                "js ''buy milk''"]
  have c4: "POST_generate_todo sample_engine sample_clock (\<lambda>m. Inl ?e)
              (Inr (JObj [(js ''prompt'', JStr (js ''buy milk''))]))
            = extract_todo sample_engine sample_clock (\<lambda>m. Inl ?e) (js ''buy milk'')"
    using T[THEN conjunct2, THEN conjunct2, THEN conjunct2, THEN conjunct1] by (simp add: n l)
  have c5: "extract_todo sample_engine sample_clock (\<lambda>m. Inl ?e) (js ''buy milk'')
            = (error_response ?e,
               [\<lparr>out_instruction = ExtractInstruction (js ''2024-01-02'') (js ''08:00''),
                 out_message = js ''buy milk''\<rparr>])"
    using T[THEN conjunct2, THEN conjunct2, THEN conjunct2, THEN conjunct2, THEN conjunct1]
    by (simp add: d)
  have st: "resp_status (error_response ?e) = 429"
    using T[THEN conjunct2, THEN conjunct2, THEN conjunct2, THEN conjunct2, THEN conjunct2,
            THEN conjunct2, THEN conjunct2, THEN conjunct1] i
    by simp
  have bd: "resp_body (error_response ?e)
            = JObj [(js ''error'', JStr msg_rate_limit),
                    (js ''details'', JStr (js ''[429 Too Many Requests] quota exceeded''))]"
    using T[THEN conjunct2, THEN conjunct2, THEN conjunct2, THEN conjunct2, THEN conjunct2,
            THEN conjunct2, THEN conjunct2, THEN conjunct2] i
    by (simp add: js_def)
  have "error_response ?e
          = \<lparr>resp_status = resp_status (error_response ?e),
             resp_body = resp_body (error_response ?e)\<rparr>"
    by simp
  then have "error_response ?e
          = \<lparr>resp_status = 429,
             resp_body = JObj [(js ''error'', JStr msg_rate_limit),
                               (js ''details'',
                                JStr (js ''[429 Too Many Requests] quota exceeded''))]\<rparr>"
    by (simp only: st bd)
  then show ?thesis by (simp only: c4 c5)
qed

section \<open>The reply of the analysis\<close>

text \<open>
  The answer is not always the parsed value itself: a number too large for a double is
  parsed as infinity, and the response carries \<open>null\<close> in its place.
\<close>

theorem overflowing_number_sent_as_null:
  \<open>JSON_parse sample_engine (js ''{"n":1e400}'') = Some (JObj [(js ''n'', JNum (Infinity False))])
   \<and> fst (POST_analyze_todos sample_engine sample_clock (\<lambda>m. Inr (js ''{"n":1e400}''))
             (Inr (JObj [(js ''todos'', JArr [JObj [(js ''title'', JStr (js ''pay rent''))]])])))
       = \<lparr>resp_status = 200, resp_body = JObj [(js ''n'', JNull)]\<rparr>
   \<and> JObj [(js ''n'', JNull)] \<noteq> JObj [(js ''n'', JNum (Infinity False))]\<close>
proof -
  have p: \<open>JSON_parse sample_engine (js ''{"n":1e400}'')
             = Some (JObj [(js ''n'', JNum (Infinity False))])\<close>
    by (simp add: JSON_parse_def js_def lex_top_def json_space_def lex_finish_def obj_put_def
        index_key_def digit_val_def num_start_def num_magnitude_def accepting_def number_of_def
        overflow_bound_def)
  show ?thesis
    by (simp add: p POST_analyze_todos_def analyze_def parse_response_def Let_def)
qed

text \<open>
  C10, as the code has it. For a task list that is not empty and has no \<open>null\<close> element,
  when the Text Completion Service replies with a text that parses as JSON, as it is or
  after cleaning, the endpoint answers with status 200 and the parsed value as the body,
  in which only a number that is not finite is replaced by \<open>null\<close> and the negative zero
  by \<open>0\<close>: no field is checked, added or changed, so the answer lacks every field the reply
  lacks, and a parsed value all of whose numbers are finite, none the negative zero, is the
  body itself.
\<close>

theorem analysis_reply_passed_through:
  assumes "get_prop body (js ''todos'') = Some (JArr todos)" and "todos \<noteq> []"
    and "JNull \<notin> set todos"
    and "service \<lparr>out_instruction =
                     AnalyzeInstruction (currentDate clk) (currentTime clk)
                       (timeframeText (get_prop body (js ''timeframe''))),
                   out_message = analysis_prompt eng (get_prop body (js ''timeframe'')) todos\<rparr>
           = Inr responseText"
    and "JSON_parse eng responseText = Some v
         \<or> (JSON_parse eng responseText = None
             \<and> JSON_parse eng (cleanJson responseText) = Some v)"
  shows "fst (POST_analyze_todos eng clk service (Inr body))
           = \<lparr>resp_status = 200, resp_body = wire v\<rparr>
       \<and> (plain_json v \<longrightarrow>
            fst (POST_analyze_todos eng clk service (Inr body))
              = \<lparr>resp_status = 200, resp_body = v\<rparr>)
       \<and> (\<forall>k. get_prop v k = None \<longrightarrow> get_prop (wire v) k = None)"
proof -
  have p: "parse_response eng responseText = Inr v"
    using assms(5) by (auto simp: parse_response_def)
  have b: "POST_analyze_todos eng clk service (Inr body)
              = analyze eng clk service todos (get_prop body (js ''timeframe''))"
    using assms(1,2) by (cases body) (simp_all add: POST_analyze_todos_def)
  have r: "fst (POST_analyze_todos eng clk service (Inr body))
             = \<lparr>resp_status = 200, resp_body = wire v\<rparr>"
    unfolding b using assms(3,4) p by (simp add: analyze_def Let_def)
  show ?thesis
    using r by (simp add: wire_plain get_prop_wire)
qed

text \<open>An instance: the reply \<open>{}\<close> comes back as the empty object, with none of the four fields.\<close>

theorem analysis_reply_passed_through_witness:
  "get_prop (JObj [(js ''todos'', JArr [JObj [(js ''title'', JStr (js ''pay rent''))]])]) (js ''todos'')
     = Some (JArr [JObj [(js ''title'', JStr (js ''pay rent''))]])
   \<and> JSON_parse sample_engine (js ''{}'') = Some (JObj [])
   \<and> plain_json (JObj [])
   \<and> fst (POST_analyze_todos sample_engine sample_clock (\<lambda>m. Inr (js ''{}''))
             (Inr (JObj [(js ''todos'', JArr [JObj [(js ''title'', JStr (js ''pay rent''))]])])))
       = \<lparr>resp_status = 200, resp_body = JObj []\<rparr>
   \<and> get_prop (JObj []) (js ''summary'') = None"
  using analysis_reply_passed_through
          [of "JObj [(js ''todos'', JArr [JObj [(js ''title'', JStr (js ''pay rent''))]])]"
              "[JObj [(js ''title'', JStr (js ''pay rent''))]]"
              "\<lambda>m. Inr (js ''{}'')" sample_clock sample_engine "js ''{}''" "JObj []"]
  by (simp add: js_def JSON_parse_def lex_top_def json_space_def lex_finish_def)

section \<open>Parsing a fenced reply\<close>

text \<open>
  C5. A reply that is valid JSON parses to the same value when it is wrapped in the code
  fence (the opening marker, the text, the closing marker): the direct attempt fails on
  the fence, the cleaning removes exactly the two markers, and trimming does not change
  what a valid text parses to. A reply is rejected, with the \<open>SyntaxError\<close> of the second
  attempt, exactly when the direct attempt and the attempt on the cleaned text both fail.
\<close>

theorem fenced_reply_parses_alike:
  "(JSON_parse eng text = Some v \<longrightarrow>
      parse_response eng text = Inr v \<and> parse_response eng (fenced text) = Inr v)
   \<and> ((\<exists>e. parse_response eng reply = Inl e)
        \<longleftrightarrow> JSON_parse eng reply = None \<and> JSON_parse eng (cleanJson reply) = None)
   \<and> (\<forall>e. parse_response eng reply = Inl e \<longrightarrow> e = syntax_error eng (cleanJson reply))"
  by (auto simp: parse_response_def JSON_parse_fenced cleanJson_fenced split: option.splits)

text \<open>An instance: a one-field object, bare and fenced.\<close>

theorem fenced_reply_parses_alike_witness:
  \<open>JSON_parse sample_engine (js ''{"title": "x"}'') = Some (JObj [(js ''title'', JStr (js ''x''))])
   \<and> parse_response sample_engine (js ''{"title": "x"}'')
       = Inr (JObj [(js ''title'', JStr (js ''x''))])
   \<and> parse_response sample_engine (fenced (js ''{"title": "x"}''))
       = Inr (JObj [(js ''title'', JStr (js ''x''))])\<close>
proof -
  have p: \<open>JSON_parse sample_engine (js ''{"title": "x"}'')
             = Some (JObj [(js ''title'', JStr (js ''x''))])\<close>
    by (simp add: JSON_parse_def js_def lex_top_def json_space_def lex_finish_def obj_put_def
        index_key_def)
  show ?thesis
    using fenced_reply_parses_alike
            [of sample_engine \<open>js ''{"title": "x"}''\<close>
                \<open>JObj [(js ''title'', JStr (js ''x''))]\<close> \<open>js ''x''\<close>]
          p
    by simp
qed

end
